theory Spec2Isabelle
  imports Complex_Main
begin

section \<open>JavaScript values\<close>

text \<open>
  The script of \<^verbatim>\<open>src/index.js\<close> handles values that come out of \<^verbatim>\<open>JSON.parse\<close>, of the
  registry's HTTP response and of two external tools. They are modelled as a datatype of
  JavaScript values. A finite number is the rational it denotes (every finite IEEE double
  is a rational; \<open>-0\<close> and \<open>0\<close> behave alike in every operation used here); the
  non-finite numbers are constructors of their own. An object is the list of its own
  enumerable properties in the order \<^verbatim>\<open>Object.keys\<close> enumerates them.
\<close>

datatype jsnum = Fin rat | PosInf | NegInf | NaN

datatype jsval =
    JUndefined
  | JNull
  | JBool bool
  | JNum jsnum
  | JStr string
  | JArr "jsval list"
  | JObj "(string \<times> jsval) list"

text \<open>Exceptions and promise rejections are values of a sum type, \<open>Inl\<close> being the throw.\<close>

datatype error = TypeError | SyntaxError | ExternalError string

definition bindE :: "error + 'a \<Rightarrow> ('a \<Rightarrow> error + 'b) \<Rightarrow> error + 'b" where
  "bindE m f = (case m of Inl e \<Rightarrow> Inl e | Inr x \<Rightarrow> f x)"

text \<open>\<^verbatim>\<open>!v\<close> is \<open>\<not> truthy v\<close>; \<^verbatim>\<open>a || b\<close> is \<open>js_or a b\<close>.\<close>

fun truthy :: "jsval \<Rightarrow> bool" where
  "truthy JUndefined = False"
| "truthy JNull = False"
| "truthy (JBool b) = b"
| "truthy (JNum (Fin q)) = (q \<noteq> 0)"
| "truthy (JNum NaN) = False"
| "truthy (JNum PosInf) = True"
| "truthy (JNum NegInf) = True"
| "truthy (JStr s) = (s \<noteq> [])"
| "truthy (JArr xs) = True"
| "truthy (JObj kvs) = True"

definition js_or :: "jsval \<Rightarrow> jsval \<Rightarrow> jsval" where
  "js_or a b = (if truthy a then a else b)"

fun nullish :: "jsval \<Rightarrow> bool" where
  "nullish JUndefined = True"
| "nullish JNull = True"
| "nullish v = False"

text \<open>The decimal rendering of a natural number (array indices, and the digits of \<^verbatim>\<open>toFixed\<close>).\<close>

definition digit_char :: "nat \<Rightarrow> char" where
  "digit_char d = ''0123456789'' ! d"

fun digits :: "nat \<Rightarrow> string" where
  "digits n =
     (if n < 10 then [digit_char n]
      else digits (n div 10) @ [digit_char (n mod 10)])"

declare digits.simps [simp del]

definition indexKeys :: "nat \<Rightarrow> string list" where
  "indexKeys n = map digits [0..<n]"

text \<open>
  The own enumerable properties of a value, in enumeration order: those of an object, the
  indices of an array, the indices of a string (each a one-character string). The property
  names the script reads by name (\<^verbatim>\<open>versions\<close>, \<^verbatim>\<open>engines\<close>, \<^verbatim>\<open>node\<close>, \<^verbatim>\<open>dependency\<close>,
  \<^verbatim>\<open>drift\<close>, ...) are none of the built-in properties of arrays, strings or prototypes, so
  reading one of them off a value finds an own property or \<^verbatim>\<open>undefined\<close>.
\<close>

fun entries :: "jsval \<Rightarrow> (string \<times> jsval) list" where
  "entries (JObj kvs) = kvs"
| "entries (JArr xs) = zip (indexKeys (length xs)) xs"
| "entries (JStr s) = zip (indexKeys (length s)) (map (\<lambda>c. JStr [c]) s)"
| "entries v = []"

definition getMember :: "jsval \<Rightarrow> string \<Rightarrow> jsval" where
  "getMember v k = (case map_of (entries v) k of None \<Rightarrow> JUndefined | Some x \<Rightarrow> x)"

text \<open>\<^verbatim>\<open>v.k\<close> throws a TypeError on \<^verbatim>\<open>undefined\<close> and \<^verbatim>\<open>null\<close>; \<^verbatim>\<open>v?.k\<close> yields \<^verbatim>\<open>undefined\<close> there.\<close>

definition getProp :: "jsval \<Rightarrow> string \<Rightarrow> error + jsval" where
  "getProp v k = (if nullish v then Inl TypeError else Inr (getMember v k))"

definition optProp :: "jsval \<Rightarrow> string \<Rightarrow> jsval" where
  "optProp v k = (if nullish v then JUndefined else getMember v k)"

definition Object_keys :: "jsval \<Rightarrow> error + string list" where
  "Object_keys v = (if nullish v then Inl TypeError else Inr (map fst (entries v)))"

fun Array_isArray :: "jsval \<Rightarrow> bool" where
  "Array_isArray (JArr xs) = True"
| "Array_isArray v = False"

section \<open>The collaborators\<close>

text \<open>
  What the script does not compute itself: the file system, the \<^verbatim>\<open>libyear\<close> process, the
  \<^verbatim>\<open>npm-check\<close> library, the registry behind \<^verbatim>\<open>axios.get\<close>, and the library functions
  \<^verbatim>\<open>JSON.parse\<close>, \<^verbatim>\<open>semver.intersects\<close>, \<^verbatim>\<open>path.dirname\<close>, \<^verbatim>\<open>path.basename\<close> and the
  number-to-string conversion. Each is a field of the environment; a call that throws or
  rejects answers \<open>Inl\<close>. The outcome of \<^verbatim>\<open>exec\<close> is the triple its callback receives.
\<close>

record exec_result =
  exec_error :: "string option"
  exec_stdout :: string
  exec_stderr :: string

record env =
  fs_readFileSync :: "string \<Rightarrow> error + string"
  JSON_parse :: "string \<Rightarrow> error + jsval"
  exec_libyear :: "string \<Rightarrow> exec_result"
  npmCheck_packages :: "string \<Rightarrow> error + jsval"
  axios_get :: "string \<Rightarrow> error + jsval"
  semver_intersects :: "jsval \<Rightarrow> string \<Rightarrow> error + bool"
  path_dirname :: "string \<Rightarrow> string"
  path_basename :: "string \<Rightarrow> string"
  Number_toString :: "rat \<Rightarrow> string"

section \<open>Node-Compatibility Resolver\<close>

definition isCompatibleWithNodeVersion :: "env \<Rightarrow> jsval \<Rightarrow> string \<Rightarrow> bool" where
  "isCompatibleWithNodeVersion w engineRange nodeVersionRange =
     (if \<not> truthy engineRange then False
      else (case semver_intersects w engineRange nodeVersionRange of
              Inr b \<Rightarrow> b
            | Inl err \<Rightarrow> False))"

text \<open>The engine range a published version declares: \<^verbatim>\<open>versions[version]?.engines?.node\<close>.\<close>

definition declaredEngine :: "jsval \<Rightarrow> string \<Rightarrow> jsval" where
  "declaredEngine versions ver = optProp (optProp (getMember versions ver) ''engines'') ''node''"

definition compatibleVersions :: "env \<Rightarrow> jsval \<Rightarrow> string \<Rightarrow> string list \<Rightarrow> string list" where
  "compatibleVersions w versions nodeVersion ks =
     filter (\<lambda>ver. isCompatibleWithNodeVersion w (declaredEngine versions ver) nodeVersion) ks"

definition findLatestCompatibleVersion :: "env \<Rightarrow> jsval \<Rightarrow> string \<Rightarrow> error + string" where
  "findLatestCompatibleVersion w npmData nodeVersion =
     (if \<not> truthy npmData then Inr ''Not informed''
      else bindE (getProp npmData ''versions'') (\<lambda>versions.
           bindE (Object_keys versions) (\<lambda>ks.
             let cs = compatibleVersions w versions nodeVersion ks
             in if length cs > 0 then Inr (cs ! (length cs - 1))
                else Inr ''Not informed'')))"

section \<open>Registry Client\<close>

definition fetchNpmPackageInfo :: "env \<Rightarrow> string \<Rightarrow> error + jsval" where
  "fetchNpmPackageInfo w packageName =
     (case axios_get w (''https://registry.npmjs.org/'' @ packageName) of
        Inr response_data \<Rightarrow> Inr response_data
      | Inl err \<Rightarrow> Inr (JStr ''N/A''))"

text \<open>The compatibility record of \<^verbatim>\<open>src/index.js\<close> (runtimes 16, 18, 20).\<close>

record nodeCompatibility =
  node16Version :: string
  node18Version :: string
  node20Version :: string

definition findNodeCompatibility :: "env \<Rightarrow> string \<Rightarrow> error + nodeCompatibility" where
  "findNodeCompatibility w dep =
     bindE (fetchNpmPackageInfo w dep) (\<lambda>npmData.
       if \<not> truthy npmData \<or> npmData = JStr ''N/A''
       then Inr \<lparr>node16Version = ''N/A'', node18Version = ''N/A'', node20Version = ''N/A''\<rparr>
       else bindE (findLatestCompatibleVersion w npmData ''^16.0.0'') (\<lambda>n16.
            bindE (findLatestCompatibleVersion w npmData ''^18.0.0'') (\<lambda>n18.
            bindE (findLatestCompatibleVersion w npmData ''^20.0.0'') (\<lambda>n20.
              Inr \<lparr>node16Version = n16, node18Version = n18, node20Version = n20\<rparr>))))"

text \<open>The older variant of the script (the second source file) also resolves runtime 14.\<close>

record nodeCompatibility_legacy =
  node14 :: string
  node16 :: string
  node18 :: string
  node20 :: string

definition findNodeCompatibility_legacy :: "env \<Rightarrow> string \<Rightarrow> error + nodeCompatibility_legacy" where
  "findNodeCompatibility_legacy w dep =
     bindE (fetchNpmPackageInfo w dep) (\<lambda>npmData.
       if \<not> truthy npmData \<or> npmData = JStr ''N/A''
       then Inr \<lparr>node14 = ''N/A'', node16 = ''N/A'', node18 = ''N/A'', node20 = ''N/A''\<rparr>
       else bindE (findLatestCompatibleVersion w npmData ''^14.0.0'') (\<lambda>n14.
            bindE (findLatestCompatibleVersion w npmData ''^16.0.0'') (\<lambda>n16.
            bindE (findLatestCompatibleVersion w npmData ''^18.0.0'') (\<lambda>n18.
            bindE (findLatestCompatibleVersion w npmData ''^20.0.0'') (\<lambda>n20.
              Inr \<lparr>node14 = n14, node16 = n16, node18 = n18, node20 = n20\<rparr>)))))"

section \<open>Manifest Parser\<close>

record dep_decl =
  dependency :: string
  type :: string
  version :: jsval
  module :: string

definition analyzeDependencies :: "env \<Rightarrow> string \<Rightarrow> string \<Rightarrow> error + dep_decl list" where
  "analyzeDependencies w packageJsonPath rootDirName =
     bindE (fs_readFileSync w packageJsonPath) (\<lambda>content.
     bindE (JSON_parse w content) (\<lambda>packageJson.
     bindE (getProp packageJson ''dependencies'') (\<lambda>pd.
     bindE (getProp packageJson ''devDependencies'') (\<lambda>dd.
       let productionDeps = js_or pd (JObj []);
           devDeps = js_or dd (JObj []);
           dirName = path_basename w (path_dirname w packageJsonPath);
           label = (if dirName = rootDirName then dirName else rootDirName @ ''/'' @ dirName)
       in bindE (Object_keys productionDeps) (\<lambda>pks.
          bindE (Object_keys devDeps) (\<lambda>dks.
            Inr (map (\<lambda>dep. \<lparr>dependency = dep, type = ''production'',
                               version = getMember productionDeps dep, module = label\<rparr>) pks
               @ map (\<lambda>dep. \<lparr>dependency = dep, type = ''development'',
                               version = getMember devDeps dep, module = label\<rparr>) dks)))))))"

section \<open>Compatibility, drift and outdated-check runs of one manifest\<close>

text \<open>
  \<^verbatim>\<open>runNodeCompatibility\<close> is a loop that pushes one record per declaration; a result
  \<^verbatim>\<open>{ dependency: dep.dependency, ...nodeCompatibility }\<close> is the pair of the name and the
  compatibility record. The loop is the same in both variants of the script.
\<close>

fun compatLoop ::
  "(string \<Rightarrow> error + 'c) \<Rightarrow> dep_decl list \<Rightarrow> (string \<times> 'c) list \<Rightarrow> error + (string \<times> 'c) list" where
  "compatLoop f [] results = Inr results"
| "compatLoop f (dep # deps) results =
     bindE (f (dependency dep)) (\<lambda>nc. compatLoop f deps (results @ [(dependency dep, nc)]))"

definition runNodeCompatibility ::
  "env \<Rightarrow> dep_decl list \<Rightarrow> error + (string \<times> nodeCompatibility) list" where
  "runNodeCompatibility w dependencies = compatLoop (findNodeCompatibility w) dependencies []"

definition runNodeCompatibility_legacy ::
  "env \<Rightarrow> dep_decl list \<Rightarrow> error + (string \<times> nodeCompatibility_legacy) list" where
  "runNodeCompatibility_legacy w dependencies =
     compatLoop (findNodeCompatibility_legacy w) dependencies []"

definition runLibyearAnalysis :: "env \<Rightarrow> string \<Rightarrow> error + jsval" where
  "runLibyearAnalysis w packageJsonPath =
     (let dirPath = path_dirname w packageJsonPath;
          r = exec_libyear w dirPath
      in case exec_error r of
           Some e \<Rightarrow> Inl (ExternalError e)
         | None \<Rightarrow>
             if exec_stderr r \<noteq> [] then Inr (JStr (exec_stderr r))
             else JSON_parse w (exec_stdout r))"

definition runNpmCheck :: "env \<Rightarrow> string \<Rightarrow> jsval" where
  "runNpmCheck w packageJsonPath =
     (let dirPath = path_dirname w packageJsonPath
      in case npmCheck_packages w dirPath of
           Inr packages \<Rightarrow> packages
         | Inl err \<Rightarrow> JArr [])"

section \<open>Report Assembler\<close>

text \<open>
  \<^verbatim>\<open>Number.prototype.toFixed(2)\<close>: a non-finite number prints by name; a magnitude of
  \<open>10\<^sup>2\<^sup>1\<close> or more prints as the number-to-string conversion does (exponent notation);
  otherwise the digits of the nearest integer to a hundred times the magnitude (the larger
  one on a tie), padded to three digits, with a point before the last two.
\<close>

definition toFixed2 :: "env \<Rightarrow> jsnum \<Rightarrow> string" where
  "toFixed2 w x =
     (case x of
        NaN \<Rightarrow> ''NaN''
      | PosInf \<Rightarrow> ''Infinity''
      | NegInf \<Rightarrow> ''-Infinity''
      | Fin q \<Rightarrow>
          (let s = (if q < 0 then ''-'' else []);
               a = \<bar>q\<bar>
           in if a \<ge> 10 ^ 21 then s @ Number_toString w a
              else (let n = nat \<lfloor>a * 100 + 1 / 2\<rfloor>;
                        m = digits n;
                        m' = (if length m \<le> 2 then replicate (3 - length m) (CHR ''0'') @ m else m);
                        k = length m'
                    in s @ take (k - 2) m' @ ''.'' @ drop (k - 2) m')))"

text \<open>\<^verbatim>\<open>s.replace(a, b)\<close> with one-character strings replaces the first occurrence only.\<close>

fun replace_first :: "char \<Rightarrow> char \<Rightarrow> string \<Rightarrow> string" where
  "replace_first a b [] = []"
| "replace_first a b (c # cs) = (if c = a then b # cs else c # replace_first a b cs)"

definition formatDecimal :: "env \<Rightarrow> jsval \<Rightarrow> error + string" where
  "formatDecimal w v =
     (if v \<noteq> JUndefined \<and> v \<noteq> JNull
      then (case v of
              JNum x \<Rightarrow> Inr (replace_first (CHR ''.'') (CHR '','') (toFixed2 w x))
            | _ \<Rightarrow> Inl TypeError)
      else Inr ''Unknown'')"

text \<open>A report row is the object literal \<^verbatim>\<open>formatDependencyResult\<close> returns: its fields in order.\<close>

type_synonym row = "(string \<times> jsval) list"

definition formatDependencyResult ::
  "env \<Rightarrow> dep_decl \<Rightarrow> jsval \<Rightarrow> jsval \<Rightarrow> string \<Rightarrow> string \<Rightarrow> string \<Rightarrow> error + row" where
  "formatDependencyResult w dep libyearDepResult npmCheckResult n16 n18 n20 =
     (let npmCheckData = js_or npmCheckResult (JObj [])
      in bindE (formatDecimal w (optProp libyearDepResult ''drift'')) (\<lambda>drift.
         bindE (formatDecimal w (optProp libyearDepResult ''pulse'')) (\<lambda>pulse.
           Inr [(''module'', JStr (module dep)),
                (''dependency'', JStr (dependency dep)),
                (''type'', JStr (type dep)),
                (''currentVersion'', version dep),
                (''latestVersion'', js_or (optProp libyearDepResult ''available'') (JStr ''Unknown'')),
                (''npmLatest'', js_or (getMember npmCheckData ''latest'') (JStr ''Unknown'')),
                (''npmWanted'', js_or (getMember npmCheckData ''packageWanted'') (JStr ''Unknown'')),
                (''easyUpgrade'', js_or (getMember npmCheckData ''easyUpgrade'') (JBool False)),
                (''node16Version'', JStr n16),
                (''node18Version'', JStr n18),
                (''node20Version'', JStr n20),
                (''unused'', js_or (getMember npmCheckData ''unused'') (JBool False)),
                (''drift'', JStr drift),
                (''pulse'', JStr pulse),
                (''releases'', js_or (optProp libyearDepResult ''releases'') (JStr ''0'')),
                (''major'', js_or (optProp libyearDepResult ''major'') (JStr ''0'')),
                (''minor'', js_or (optProp libyearDepResult ''minor'') (JStr ''0'')),
                (''patch'', js_or (optProp libyearDepResult ''patch'') (JStr ''0''))])))"

definition formatDependencyResult_legacy ::
  "env \<Rightarrow> dep_decl \<Rightarrow> jsval \<Rightarrow> jsval \<Rightarrow> string \<Rightarrow> string \<Rightarrow> string \<Rightarrow> string \<Rightarrow> error + row" where
  "formatDependencyResult_legacy w dep libyearDepResult npmCheckResult n14 n16 n18 n20 =
     (let npmCheckData = js_or npmCheckResult (JObj []);
          isNotNodeUpgradeBlocking = (n14 = n16 \<and> n16 = n18 \<and> n18 = n20)
      in bindE (formatDecimal w (optProp libyearDepResult ''drift'')) (\<lambda>drift.
         bindE (formatDecimal w (optProp libyearDepResult ''pulse'')) (\<lambda>pulse.
           Inr [(''module'', JStr (module dep)),
                (''dependency'', JStr (dependency dep)),
                (''type'', JStr (type dep)),
                (''currentVersion'', version dep),
                (''latestVersion'', js_or (optProp libyearDepResult ''available'') (JStr ''Unknown'')),
                (''npmLatest'', js_or (getMember npmCheckData ''latest'') (JStr ''Unknown'')),
                (''npmWanted'', js_or (getMember npmCheckData ''packageWanted'') (JStr ''Unknown'')),
                (''easyUpgrade'', js_or (getMember npmCheckData ''easyUpgrade'') (JBool False)),
                (''unused'', js_or (getMember npmCheckData ''unused'') (JBool False)),
                (''node14'', JStr n14),
                (''node16'', JStr n16),
                (''node18'', JStr n18),
                (''node20'', JStr n20),
                (''nodeUpgradeBlocking'', JStr (if isNotNodeUpgradeBlocking then ''FALSE'' else ''TRUE'')),
                (''drift'', JStr drift),
                (''pulse'', JStr pulse),
                (''releases'', js_or (optProp libyearDepResult ''releases'') (JStr ''0'')),
                (''major'', js_or (optProp libyearDepResult ''major'') (JStr ''0'')),
                (''minor'', js_or (optProp libyearDepResult ''minor'') (JStr ''0'')),
                (''patch'', js_or (optProp libyearDepResult ''patch'') (JStr ''0''))])))"

text \<open>The column ids of \<^verbatim>\<open>generateCsv\<close>, in header order, for the two variants.\<close>

definition csvHeader :: "string list" where
  "csvHeader = [''module'', ''dependency'', ''type'', ''currentVersion'', ''latestVersion'',
     ''npmLatest'', ''npmWanted'', ''easyUpgrade'', ''node16Version'', ''node18Version'',
     ''node20Version'', ''unused'', ''drift'', ''pulse'', ''releases'', ''major'', ''minor'',
     ''patch'']"

definition csvHeader_legacy :: "string list" where
  "csvHeader_legacy = [''module'', ''dependency'', ''type'', ''currentVersion'', ''latestVersion'',
     ''npmLatest'', ''npmWanted'', ''easyUpgrade'', ''unused'', ''node14'', ''node16'', ''node18'',
     ''node20'', ''nodeUpgradeBlocking'', ''drift'', ''pulse'', ''releases'', ''major'', ''minor'',
     ''patch'']"

text \<open>
  \<^verbatim>\<open>xs.find(result => result[p] === name)\<close>: the first element whose property is the
  string, \<^verbatim>\<open>undefined\<close> when there is none; reading the property of a \<^verbatim>\<open>null\<close> element
  throws, and so does calling \<^verbatim>\<open>find\<close> on a value that is not an array.
\<close>

fun findBy :: "string \<Rightarrow> string \<Rightarrow> jsval list \<Rightarrow> error + jsval" where
  "findBy p name [] = Inr JUndefined"
| "findBy p name (r # rs) =
     bindE (getProp r p) (\<lambda>v. if v = JStr name then Inr r else findBy p name rs)"

definition arrayFindBy :: "string \<Rightarrow> string \<Rightarrow> jsval \<Rightarrow> error + jsval" where
  "arrayFindBy p name v = (case v of JArr xs \<Rightarrow> findBy p name xs | _ \<Rightarrow> Inl TypeError)"

definition findCompat :: "string \<Rightarrow> (string \<times> 'c) list \<Rightarrow> error + 'c" where
  "findCompat name results =
     (case find (\<lambda>r. fst r = name) results of
        None \<Rightarrow> Inl TypeError
      | Some r \<Rightarrow> Inr (snd r))"

text \<open>The body of the inner loop of the main function: the three lookups and the row.\<close>

definition joinRow ::
  "env \<Rightarrow> jsval \<Rightarrow> jsval \<Rightarrow> (string \<times> nodeCompatibility) list \<Rightarrow> dep_decl \<Rightarrow> error + row" where
  "joinRow w libyearResults npmCheckResults nodeCompatibilityResults dep =
     bindE (arrayFindBy ''dependency'' (dependency dep) libyearResults) (\<lambda>libyearDepResult.
     bindE (arrayFindBy ''moduleName'' (dependency dep) npmCheckResults) (\<lambda>npmCheckDepResult.
     bindE (findCompat (dependency dep) nodeCompatibilityResults) (\<lambda>nc.
       formatDependencyResult w dep libyearDepResult npmCheckDepResult
         (node16Version nc) (node18Version nc) (node20Version nc))))"

fun joinLoop ::
  "env \<Rightarrow> jsval \<Rightarrow> jsval \<Rightarrow> (string \<times> nodeCompatibility) list \<Rightarrow> dep_decl list \<Rightarrow> row list
     \<Rightarrow> error + row list" where
  "joinLoop w l n c [] csvData = Inr csvData"
| "joinLoop w l n c (dep # deps) csvData =
     bindE (joinRow w l n c dep) (\<lambda>result. joinLoop w l n c deps (csvData @ [result]))"

text \<open>
  One iteration of the loop over the manifests, from the accumulated rows to the new ones.
  The \<^verbatim>\<open>continue\<close> of the guard leaves the rows as they are.
\<close>

definition processFile :: "env \<Rightarrow> string \<Rightarrow> string \<Rightarrow> row list \<Rightarrow> error + row list" where
  "processFile w rootDirName file csvData =
     bindE (analyzeDependencies w file rootDirName) (\<lambda>dependencies.
     bindE (runLibyearAnalysis w file) (\<lambda>libyearResults.
       let npmCheckResults = runNpmCheck w file
       in bindE (runNodeCompatibility w dependencies) (\<lambda>nodeCompatibilityResults.
            if \<not> truthy libyearResults \<or> \<not> Array_isArray libyearResults then Inr csvData
            else joinLoop w libyearResults npmCheckResults nodeCompatibilityResults
                   dependencies csvData)))"

fun mainLoop :: "env \<Rightarrow> string \<Rightarrow> string list \<Rightarrow> row list \<Rightarrow> error + row list" where
  "mainLoop w rootDirName [] csvData = Inr csvData"
| "mainLoop w rootDirName (file # files) csvData =
     bindE (processFile w rootDirName file csvData) (\<lambda>csvData'. mainLoop w rootDirName files csvData')"

text \<open>
  The run, given the manifests the locator found: the rows handed to \<^verbatim>\<open>generateCsv\<close>, or
  the exception that ends the process before any file is written.
\<close>

definition run :: "env \<Rightarrow> string \<Rightarrow> string list \<Rightarrow> error + row list" where
  "run w rootDir packageJsonFiles = mainLoop w (path_basename w rootDir) packageJsonFiles []"

section \<open>Properties the theorems speak of\<close>

text \<open>
  A published version's declared engine range intersects a runtime range when the version
  declares a range at all and \<^verbatim>\<open>semver.intersects\<close> answers true for it.
\<close>

definition intersecting :: "env \<Rightarrow> jsval \<Rightarrow> string \<Rightarrow> string \<Rightarrow> bool" where
  "intersecting w versions nodeVersion ver =
     (truthy (declaredEngine versions ver)
      \<and> semver_intersects w (declaredEngine versions ver) nodeVersion = Inr True)"

text \<open>
  The shapes the collaborators document for their output: \<^verbatim>\<open>libyear --json\<close> prints a
  list of records whose \<^verbatim>\<open>drift\<close> and \<^verbatim>\<open>pulse\<close> are numbers (or missing, or
  \<^verbatim>\<open>null\<close>); \<^verbatim>\<open>npm-check\<close> answers a list of records. A record is any value but
  \<^verbatim>\<open>undefined\<close> and \<^verbatim>\<open>null\<close>.
\<close>

fun numeric_or_missing :: "jsval \<Rightarrow> bool" where
  "numeric_or_missing JUndefined = True"
| "numeric_or_missing JNull = True"
| "numeric_or_missing (JNum x) = True"
| "numeric_or_missing v = False"

definition drift_record :: "jsval \<Rightarrow> bool" where
  "drift_record r =
     (\<not> nullish r \<and> numeric_or_missing (getMember r ''drift'')
      \<and> numeric_or_missing (getMember r ''pulse''))"

definition drift_records :: "jsval \<Rightarrow> bool" where
  "drift_records v = (case v of JArr ls \<Rightarrow> list_all drift_record ls | _ \<Rightarrow> False)"

definition package_records :: "jsval \<Rightarrow> bool" where
  "package_records v =
     (case v of JArr ps \<Rightarrow> list_all (\<lambda>r. \<not> nullish r) ps | _ \<Rightarrow> False)"

text \<open>
  What the resolver can work with: the sentinel, an empty body, or a body that has a
  \<^verbatim>\<open>versions\<close> property (a registry snapshot).
\<close>

definition snapshot_or_sentinel :: "jsval \<Rightarrow> bool" where
  "snapshot_or_sentinel npmData =
     (\<not> truthy npmData \<or> npmData = JStr ''N/A'' \<or> \<not> nullish (getMember npmData ''versions''))"

text \<open>
  The join, in the specification's words. A lookup by name selects the first record of a
  list whose property is the name, and \<^verbatim>\<open>undefined\<close> when no record has it. A field of
  the row is the joined record's field, and the default when the record is missing or the
  field is missing (or falsy).
\<close>

definition first_match :: "string \<Rightarrow> string \<Rightarrow> jsval list \<Rightarrow> jsval" where
  "first_match p name rs =
     (case filter (\<lambda>r. getMember r p = JStr name) rs of [] \<Rightarrow> JUndefined | r # _ \<Rightarrow> r)"

definition field_or :: "jsval \<Rightarrow> string \<Rightarrow> jsval \<Rightarrow> jsval" where
  "field_or r k dflt =
     (if nullish r then dflt else if truthy (getMember r k) then getMember r k else dflt)"

text \<open>
  A two-decimal string with a comma as the decimal separator: an optional minus sign, one
  or more digits, a comma, two digits.
\<close>

definition is_digit :: "char \<Rightarrow> bool" where
  "is_digit c = (c \<in> set ''0123456789'')"

definition two_decimal_comma :: "string \<Rightarrow> bool" where
  "two_decimal_comma s =
     (let t = (case s of [] \<Rightarrow> [] | c # cs \<Rightarrow> if c = CHR ''-'' then cs else s);
          k = length t
      in 4 \<le> k \<and> list_all is_digit (take (k - 3) t) \<and> t ! (k - 3) = CHR '',''
         \<and> list_all is_digit (drop (k - 2) t))"

section \<open>A sample run\<close>

text \<open>
  A project \<^verbatim>\<open>myproj\<close> with a root manifest and one package \<^verbatim>\<open>pkgs/foo\<close>. File contents
  and process output are abbreviated to a name, which the sample \<^verbatim>\<open>JSON.parse\<close> decodes. The
  registry snapshot of package \<^verbatim>\<open>a\<close> is the one of the specification's example, with one
  more version that declares no engine range. \<^verbatim>\<open>semver.intersects\<close> is tabulated, with
  the library's answers, on the two engine ranges of that snapshot and the runtime ranges
  of majors 10, 12, 14, 16, 18 and 20; no other pair is part of the sample. The path
  functions are those of POSIX on relative, normalised paths.
  The registry has no entry for \<^verbatim>\<open>b\<close>, an empty snapshot for \<^verbatim>\<open>c\<close>, and malformed
  bodies for \<^verbatim>\<open>d\<close> and \<^verbatim>\<open>e\<close>. The number-to-string conversion is consulted only
  for magnitudes the sample does not contain.
\<close>

definition sample_dirname :: "string \<Rightarrow> string" where
  "sample_dirname p =
     (if CHR ''/'' \<in> set p then rev (tl (dropWhile (\<lambda>c. c \<noteq> CHR ''/'') (rev p))) else ''.'')"

definition sample_basename :: "string \<Rightarrow> string" where
  "sample_basename p = rev (takeWhile (\<lambda>c. c \<noteq> CHR ''/'') (rev p))"

definition sample_intersects :: "jsval \<Rightarrow> string \<Rightarrow> error + bool" where
  "sample_intersects engineRange nodeVersionRange =
     (if nodeVersionRange \<in> set [''^10.0.0'', ''^12.0.0'', ''^14.0.0'', ''^16.0.0'',
                                  ''^18.0.0'', ''^20.0.0'']
      then (if engineRange = JStr ''>=16''
            then Inr (nodeVersionRange \<in> set [''^16.0.0'', ''^18.0.0'', ''^20.0.0''])
            else if engineRange = JStr ''>=12 <16''
            then Inr (nodeVersionRange \<in> set [''^12.0.0'', ''^14.0.0''])
            else Inl (ExternalError ''not tabulated''))
      else Inl (ExternalError ''not tabulated''))"

definition sample_versions :: jsval where
  "sample_versions =
     JObj [(''2.0.0'', JObj [(''engines'', JObj [(''node'', JStr ''>=16'')])]),
           (''1.0.0'', JObj [(''engines'', JObj [(''node'', JStr ''>=12 <16'')])]),
           (''0.9.0'', JObj [(''name'', JStr ''a'')])]"

definition sample_snapshot :: jsval where
  "sample_snapshot = JObj [(''name'', JStr ''a''), (''versions'', sample_versions)]"

definition sample_manifest_root :: jsval where
  "sample_manifest_root =
     JObj [(''dependencies'', JObj [(''a'', JStr ''^1.0.0'')]),
           (''devDependencies'', JObj [(''b'', JStr ''~2.0.0'')])]"

definition sample_manifest_foo :: jsval where
  "sample_manifest_foo = JObj [(''dependencies'', JObj [(''c'', JStr ''1.2.3'')])]"

definition sample_deps :: "dep_decl list" where
  "sample_deps =
     [\<lparr>dependency = ''a'', type = ''production'', version = JStr ''^1.0.0'', module = ''myproj''\<rparr>,
      \<lparr>dependency = ''b'', type = ''development'', version = JStr ''~2.0.0'', module = ''myproj''\<rparr>]"

text \<open>The drift of \<^verbatim>\<open>a\<close> is the double \<^verbatim>\<open>3.14159\<close>, written as the rational it is.\<close>

definition sample_drift_a :: jsval where
  "sample_drift_a =
     JObj [(''dependency'', JStr ''a''), (''available'', JStr ''1.4.0''),
           (''drift'', JNum (Fin (3537115888337719 / 1125899906842624))),
           (''pulse'', JNum (Fin (1 / 2))),
           (''releases'', JNum (Fin 3)), (''major'', JNum (Fin 0)),
           (''minor'', JNum (Fin 4)), (''patch'', JNum (Fin 0))]"

definition sample_drift_list :: "jsval list" where
  "sample_drift_list = [sample_drift_a]"

definition sample_drift :: jsval where
  "sample_drift = JArr sample_drift_list"

definition sample_package_a :: jsval where
  "sample_package_a =
     JObj [(''moduleName'', JStr ''a''), (''latest'', JStr ''2.0.0''),
           (''packageWanted'', JStr ''1.4.0''), (''easyUpgrade'', JBool True),
           (''unused'', JBool False)]"

definition sample_package_list :: "jsval list" where
  "sample_package_list = [sample_package_a]"

definition sample_packages :: jsval where
  "sample_packages = JArr sample_package_list"

definition sample_parse :: "string \<Rightarrow> error + jsval" where
  "sample_parse s =
     (if s = ''root manifest'' then Inr sample_manifest_root
      else if s = ''foo manifest'' then Inr sample_manifest_foo
      else if s = ''root drift'' then Inr sample_drift
      else if s = ''no drift'' then Inr (JArr [])
      else Inl SyntaxError)"

definition sample_env :: env where
  "sample_env =
     \<lparr>fs_readFileSync = (\<lambda>p.
        if p = ''myproj/package.json'' then Inr ''root manifest''
        else if p = ''myproj/pkgs/foo/package.json'' then Inr ''foo manifest''
        else Inl (ExternalError ''ENOENT'')),
      JSON_parse = sample_parse,
      exec_libyear = (\<lambda>d.
        if d = ''myproj''
        then \<lparr>exec_error = None, exec_stdout = ''root drift'', exec_stderr = []\<rparr>
        else \<lparr>exec_error = None, exec_stdout = [], exec_stderr = ''warning''\<rparr>),
      npmCheck_packages = (\<lambda>d.
        if d = ''myproj'' then Inr sample_packages else Inl (ExternalError ''npm-check'')),
      axios_get = (\<lambda>url.
        if url = ''https://registry.npmjs.org/a'' then Inr sample_snapshot
        else if url = ''https://registry.npmjs.org/c'' then Inr (JObj [(''versions'', JObj [])])
        else if url = ''https://registry.npmjs.org/d'' then Inr (JObj [])
        else if url = ''https://registry.npmjs.org/e'' then Inr (JStr ''<html>'')
        else Inl (ExternalError ''404'')),
      semver_intersects = sample_intersects,
      path_dirname = sample_dirname,
      path_basename = sample_basename,
      Number_toString = (\<lambda>q. ''1e+21'')\<rparr>"

text \<open>
  The same project when the \<^verbatim>\<open>libyear\<close> process fails in the root directory and
  succeeds, with an empty list, in \<^verbatim>\<open>pkgs/foo\<close>.
\<close>

definition failing_env :: env where
  "failing_env =
     sample_env\<lparr>exec_libyear := (\<lambda>d.
        if d = ''myproj''
        then \<lparr>exec_error = Some ''Command failed: libyear --json'', exec_stdout = [],
              exec_stderr = []\<rparr>
        else \<lparr>exec_error = None, exec_stdout = ''no drift'', exec_stderr = []\<rparr>)\<rparr>"

text \<open>The same project when the \<^verbatim>\<open>libyear\<close> process fails in \<^verbatim>\<open>pkgs/foo\<close> only.\<close>

definition failing_last_env :: env where
  "failing_last_env =
     sample_env\<lparr>exec_libyear := (\<lambda>d.
        if d = ''myproj/pkgs/foo''
        then \<lparr>exec_error = Some ''Command failed: libyear --json'', exec_stdout = [],
              exec_stderr = []\<rparr>
        else exec_libyear sample_env d)\<rparr>"

section \<open>Digit strings\<close>

lemma below_ten: "(d::nat) < 10 \<Longrightarrow> d \<in> {0, 1, 2, 3, 4, 5, 6, 7, 8, 9}"
  by auto

lemma digit_char_is_digit: "d < 10 \<Longrightarrow> is_digit (digit_char d)"
  by (drule below_ten) (auto simp: digit_char_def is_digit_def)

lemma digit_char_not_point: "d < 10 \<Longrightarrow> digit_char d \<noteq> CHR ''.''"
  by (drule below_ten) (auto simp: digit_char_def)

lemma digits_is_digit: "list_all is_digit (digits n)"
proof (induction n rule: digits.induct)
  case (1 n)
  show ?case
  proof (cases "n < 10")
    case True
    then show ?thesis by (simp add: digits.simps [of n] digit_char_is_digit)
  next
    case False
    with 1 show ?thesis by (simp add: digits.simps [of n] digit_char_is_digit)
  qed
qed



section \<open>The resolver selects the last intersecting version\<close>

lemma isCompatible_iff_intersecting:
  "isCompatibleWithNodeVersion w (declaredEngine versions ver) r = intersecting w versions r ver"
  by (auto simp: isCompatibleWithNodeVersion_def intersecting_def split: sum.splits)

lemma last_filter_split:
  assumes "\<exists>x\<in>set xs. P x"
  shows "\<exists>pre post. xs = pre @ last (filter P xs) # post \<and> P (last (filter P xs))
           \<and> (\<forall>u\<in>set post. \<not> P u)"
proof -
  from split_list_last_prop [OF assms]
  obtain ys x zs where xs: "xs = ys @ x # zs" and px: "P x" and nz: "\<forall>z\<in>set zs. \<not> P z"
    by blast
  from nz have "filter P zs = []" by (simp add: filter_empty_conv)
  with xs px have lx: "last (filter P xs) = x" by simp
  have "xs = ys @ last (filter P xs) # zs \<and> P (last (filter P xs)) \<and> (\<forall>u\<in>set zs. \<not> P u)"
    using xs px nz by (simp only: lx) simp
  then show ?thesis by blast
qed

lemma findLatest_unfold:
  assumes "truthy npmData" and "\<not> nullish (getMember npmData ''versions'')"
  shows "findLatestCompatibleVersion w npmData r =
     (let cs = filter (intersecting w (getMember npmData ''versions'') r)
                 (map fst (entries (getMember npmData ''versions'')))
      in Inr (if cs = [] then ''Not informed'' else last cs))"
proof -
  from assms(1) have nn: "\<not> nullish npmData" by (cases npmData) auto
  show ?thesis
    using assms nn
    by (simp add: findLatestCompatibleVersion_def getProp_def Object_keys_def bindE_def
        compatibleVersions_def isCompatible_iff_intersecting Let_def last_conv_nth)
qed

text \<open>
  Claim C3. For a registry snapshot (a truthy value whose \<^verbatim>\<open>versions\<close> is neither
  \<^verbatim>\<open>undefined\<close> nor \<^verbatim>\<open>null\<close>) and any runtime range, the resolver returns a result: when
  some published version declares an engine range that intersects the runtime range, the
  result is such a version and no version after it in iteration order is one; when none
  does, the result is \<^verbatim>\<open>Not informed\<close>.
\<close>

theorem latest_compatible_is_last_intersecting:
  assumes "truthy npmData" and "\<not> nullish (getMember npmData ''versions'')"
  shows "\<exists>res. findLatestCompatibleVersion w npmData r = Inr res \<and>
     (if \<exists>v\<in>set (map fst (entries (getMember npmData ''versions''))).
            intersecting w (getMember npmData ''versions'') r v
      then \<exists>pre post. map fst (entries (getMember npmData ''versions'')) = pre @ res # post
             \<and> intersecting w (getMember npmData ''versions'') r res
             \<and> (\<forall>u\<in>set post. \<not> intersecting w (getMember npmData ''versions'') r u)
      else res = ''Not informed'')"
proof -
  let ?vs = "getMember npmData ''versions''"
  let ?ks = "map fst (entries ?vs)"
  let ?P = "intersecting w ?vs r"
  show ?thesis
  proof (cases "\<exists>v\<in>set ?ks. ?P v")
    case True
    then have ne: "filter ?P ?ks \<noteq> []" by (simp add: filter_empty_conv)
    from last_filter_split [OF True] ne show ?thesis
      using True by (simp add: findLatest_unfold [OF assms] Let_def)
  next
    case False
    then have "filter ?P ?ks = []" by (simp add: filter_empty_conv)
    with False show ?thesis by (simp add: findLatest_unfold [OF assms] Let_def)
  qed
qed


text \<open>
  The specification's example: runtime 18 resolves to 2.0.0, runtime 14 (and 12) to 1.0.0,
  and runtime 10, which no version's range intersects, to \<^verbatim>\<open>Not informed\<close>.
\<close>

lemma sample_snapshot_versions:
  "getMember sample_snapshot ''versions'' = sample_versions"
  by (simp add: sample_snapshot_def getMember_def)

lemma sample_intersecting:
  "intersecting sample_env sample_versions r v =
     (v = ''2.0.0'' \<and> (r = ''^16.0.0'' \<or> r = ''^18.0.0'' \<or> r = ''^20.0.0'')
      \<or> v = ''1.0.0'' \<and> (r = ''^12.0.0'' \<or> r = ''^14.0.0''))"
  by (auto simp: sample_versions_def intersecting_def declaredEngine_def optProp_def getMember_def
      sample_env_def sample_intersects_def)

lemma sample_keys: "map fst (entries sample_versions) = [''2.0.0'', ''1.0.0'', ''0.9.0'']"
  by (simp add: sample_versions_def)

theorem latest_compatible_is_last_intersecting_witness:
  "truthy sample_snapshot \<and> \<not> nullish (getMember sample_snapshot ''versions'')
   \<and> findLatestCompatibleVersion sample_env sample_snapshot ''^18.0.0'' = Inr ''2.0.0''
   \<and> findLatestCompatibleVersion sample_env sample_snapshot ''^14.0.0'' = Inr ''1.0.0''
   \<and> findLatestCompatibleVersion sample_env sample_snapshot ''^12.0.0'' = Inr ''1.0.0''
   \<and> findLatestCompatibleVersion sample_env sample_snapshot ''^10.0.0'' = Inr ''Not informed''"
proof -
  have t: "truthy sample_snapshot" by (simp add: sample_snapshot_def)
  have n: "\<not> nullish (getMember sample_snapshot ''versions'')"
    by (simp add: sample_snapshot_versions sample_versions_def)
  note th = latest_compatible_is_last_intersecting [OF t n, of sample_env,
      unfolded sample_snapshot_versions sample_intersecting sample_keys]
  have "findLatestCompatibleVersion sample_env sample_snapshot ''^18.0.0'' = Inr ''2.0.0''"
    using th [of "''^18.0.0''"] by auto
  moreover have "findLatestCompatibleVersion sample_env sample_snapshot ''^14.0.0'' = Inr ''1.0.0''"
    using th [of "''^14.0.0''"] by auto
  moreover have "findLatestCompatibleVersion sample_env sample_snapshot ''^12.0.0'' = Inr ''1.0.0''"
    using th [of "''^12.0.0''"] by auto
  moreover have "findLatestCompatibleVersion sample_env sample_snapshot ''^10.0.0'' = Inr ''Not informed''"
    using th [of "''^10.0.0''"] by auto
  ultimately show ?thesis using t n by simp
qed

text \<open>
  Claim C4. A published version that declares no engine range for the runtime (the range
  read off it is \<^verbatim>\<open>undefined\<close>, \<^verbatim>\<open>null\<close> or empty) is compatible with no runtime range under
  any \<^verbatim>\<open>semver.intersects\<close>, is in no filtered list, and is never the resolver's result
  (unless it is itself named \<^verbatim>\<open>Not informed\<close>).
\<close>

theorem undeclared_engine_never_compatible:
  assumes "\<not> truthy (declaredEngine (getMember npmData ''versions'') ver)"
  shows "\<not> isCompatibleWithNodeVersion w (declaredEngine (getMember npmData ''versions'') ver) r
         \<and> ver \<notin> set (compatibleVersions w (getMember npmData ''versions'') r ks)
         \<and> (findLatestCompatibleVersion w npmData r = Inr ver \<longrightarrow> ver = ''Not informed'')"
proof -
  let ?vs = "getMember npmData ''versions''"
  have a: "\<not> isCompatibleWithNodeVersion w (declaredEngine ?vs ver) r"
    using assms by (simp add: isCompatibleWithNodeVersion_def)
  then have b: "ver \<notin> set (compatibleVersions w ?vs r ks')" for ks'
    by (simp add: compatibleVersions_def)
  have c: "ver = ''Not informed''" if res: "findLatestCompatibleVersion w npmData r = Inr ver"
  proof (cases "truthy npmData \<and> \<not> nullish ?vs")
    case True
    then have nn: "\<not> nullish npmData" by (cases npmData) auto
    let ?cs = "compatibleVersions w ?vs r (map fst (entries ?vs))"
    show ?thesis
    proof (cases "?cs = []")
      case True
      with res \<open>truthy npmData \<and> \<not> nullish ?vs\<close> nn show ?thesis
        by (simp add: findLatestCompatibleVersion_def getProp_def Object_keys_def bindE_def)
    next
      case False
      with res \<open>truthy npmData \<and> \<not> nullish ?vs\<close> nn have "ver = last ?cs"
        by (simp add: findLatestCompatibleVersion_def getProp_def Object_keys_def bindE_def
            Let_def last_conv_nth)
      with False have "ver \<in> set ?cs" by simp
      with b show ?thesis by blast
    qed
  next
    case False
    with res show ?thesis
      by (cases "truthy npmData")
        (auto simp: findLatestCompatibleVersion_def getProp_def Object_keys_def bindE_def
          split: if_splits)
  qed
  from a b c show ?thesis by blast
qed

theorem undeclared_engine_never_compatible_witness:
  "\<not> truthy (declaredEngine (getMember sample_snapshot ''versions'') ''0.9.0'')
   \<and> \<not> isCompatibleWithNodeVersion sample_env
          (declaredEngine (getMember sample_snapshot ''versions'') ''0.9.0'') ''^18.0.0''
   \<and> ''0.9.0'' \<notin> set (compatibleVersions sample_env (getMember sample_snapshot ''versions'')
          ''^18.0.0'' [''2.0.0'', ''1.0.0'', ''0.9.0''])
   \<and> findLatestCompatibleVersion sample_env sample_snapshot ''^18.0.0'' \<noteq> Inr ''0.9.0''"
proof -
  have h: "\<not> truthy (declaredEngine (getMember sample_snapshot ''versions'') ''0.9.0'')"
    unfolding sample_snapshot_versions
    by (simp add: sample_versions_def declaredEngine_def optProp_def getMember_def)
  from undeclared_engine_never_compatible [OF h, of sample_env "''^18.0.0''"] h
  show ?thesis by auto
qed

section \<open>Registry failures\<close>

lemma bindE_simps [simp]:
  "bindE (Inl e) f = Inl e" "bindE (Inr x) f = f x"
  by (simp_all add: bindE_def)

lemma bindE_eq_Inr:
  "bindE m f = Inr y \<longleftrightarrow> (\<exists>x. m = Inr x \<and> f x = Inr y)"
  by (cases m) simp_all




section \<open>The sample run, evaluated\<close>

lemma sample_paths:
  "sample_dirname ''myproj/package.json'' = ''myproj''"
  "sample_dirname ''myproj/pkgs/foo/package.json'' = ''myproj/pkgs/foo''"
  "sample_basename ''myproj'' = ''myproj''"
  "sample_basename ''myproj/pkgs/foo'' = ''foo''"
  by (simp_all add: sample_dirname_def sample_basename_def)

lemma sample_env_fields:
  "path_dirname sample_env = sample_dirname"
  "path_basename sample_env = sample_basename"
  "JSON_parse sample_env = sample_parse"
  "semver_intersects sample_env = sample_intersects"
  "fs_readFileSync sample_env ''myproj/package.json'' = Inr ''root manifest''"
  "fs_readFileSync sample_env ''myproj/pkgs/foo/package.json'' = Inr ''foo manifest''"
  "exec_libyear sample_env ''myproj'' =
     \<lparr>exec_error = None, exec_stdout = ''root drift'', exec_stderr = []\<rparr>"
  "exec_libyear sample_env ''myproj/pkgs/foo'' =
     \<lparr>exec_error = None, exec_stdout = [], exec_stderr = ''warning''\<rparr>"
  "npmCheck_packages sample_env ''myproj'' = Inr sample_packages"
  "npmCheck_packages sample_env ''myproj/pkgs/foo'' = Inl (ExternalError ''npm-check'')"
  by (simp_all add: sample_env_def)

lemma failing_env_fields:
  "path_dirname failing_env = sample_dirname"
  "path_basename failing_env = sample_basename"
  "JSON_parse failing_env = sample_parse"
  "fs_readFileSync failing_env = fs_readFileSync sample_env"
  "npmCheck_packages failing_env = npmCheck_packages sample_env"
  "axios_get failing_env = axios_get sample_env"
  "exec_libyear failing_env ''myproj'' =
     \<lparr>exec_error = Some ''Command failed: libyear --json'', exec_stdout = [], exec_stderr = []\<rparr>"
  "exec_libyear failing_env ''myproj/pkgs/foo'' =
     \<lparr>exec_error = None, exec_stdout = ''no drift'', exec_stderr = []\<rparr>"
  by (simp_all add: failing_env_def sample_env_def)

lemma sample_analyze_root:
  "analyzeDependencies sample_env ''myproj/package.json'' ''myproj'' = Inr sample_deps"
  by (simp add: analyzeDependencies_def sample_env_fields sample_paths sample_parse_def
      sample_manifest_root_def getProp_def getMember_def js_or_def Object_keys_def Let_def
      sample_deps_def)

lemma sample_analyze_foo:
  "analyzeDependencies sample_env ''myproj/pkgs/foo/package.json'' ''myproj'' =
     Inr [\<lparr>dependency = ''c'', type = ''production'', version = JStr ''1.2.3'', module = ''myproj/foo''\<rparr>]"
  by (simp add: analyzeDependencies_def sample_env_fields sample_paths sample_parse_def
      sample_manifest_foo_def getProp_def getMember_def js_or_def Object_keys_def Let_def)

lemma analyze_env_cong:
  "fs_readFileSync w = fs_readFileSync w' \<Longrightarrow> JSON_parse w = JSON_parse w' \<Longrightarrow>
   path_dirname w = path_dirname w' \<Longrightarrow> path_basename w = path_basename w' \<Longrightarrow>
   analyzeDependencies w p r = analyzeDependencies w' p r"
  by (simp add: analyzeDependencies_def)

lemma failing_analyze:
  "analyzeDependencies failing_env p r = analyzeDependencies sample_env p r"
  by (rule analyze_env_cong) (simp_all add: failing_env_fields sample_env_fields)

section \<open>A failing drift analysis\<close>

text \<open>
  \<^verbatim>\<open>runLibyearAnalysis\<close> rejects when the process fails, and the loop over the manifests
  awaits it outside any \<^verbatim>\<open>try\<close>: the rejection ends the run.
\<close>

lemma libyear_reject_aborts:
  assumes "analyzeDependencies w file rootDirName = Inr deps"
    and "exec_error (exec_libyear w (path_dirname w file)) = Some e"
  shows "mainLoop w rootDirName (file # files) csvData = Inl (ExternalError e)"
  using assms by (simp add: processFile_def runLibyearAnalysis_def Let_def)


lemma failing_compat_c:
  "findNodeCompatibility failing_env ''c'' =
     Inr \<lparr>node16Version = ''Not informed'', node18Version = ''Not informed'',
          node20Version = ''Not informed''\<rparr>"
  by (simp add: failing_env_def sample_env_def fetchNpmPackageInfo_def findNodeCompatibility_def
      findLatestCompatibleVersion_def getProp_def getMember_def Object_keys_def
      compatibleVersions_def)

lemma failing_foo_rows:
  "processFile failing_env ''myproj'' ''myproj/pkgs/foo/package.json'' csvData =
     Inr (csvData @
       [[(''module'', JStr ''myproj/foo''), (''dependency'', JStr ''c''),
         (''type'', JStr ''production''), (''currentVersion'', JStr ''1.2.3''),
         (''latestVersion'', JStr ''Unknown''), (''npmLatest'', JStr ''Unknown''),
         (''npmWanted'', JStr ''Unknown''), (''easyUpgrade'', JBool False),
         (''node16Version'', JStr ''Not informed''), (''node18Version'', JStr ''Not informed''),
         (''node20Version'', JStr ''Not informed''), (''unused'', JBool False),
         (''drift'', JStr ''Unknown''), (''pulse'', JStr ''Unknown''),
         (''releases'', JStr ''0''), (''major'', JStr ''0''), (''minor'', JStr ''0''),
         (''patch'', JStr ''0'')]])"
  by (simp add: processFile_def failing_analyze sample_analyze_foo runLibyearAnalysis_def
      failing_env_fields sample_env_fields sample_paths sample_parse_def runNpmCheck_def
      runNodeCompatibility_def failing_compat_c joinRow_def arrayFindBy_def
      findCompat_def formatDependencyResult_def formatDecimal_def optProp_def js_or_def
      getMember_def Let_def)

text \<open>
  Claim C1, evaluated where the code departs from it. With the \<^verbatim>\<open>libyear\<close> process
  failing in the root directory, the run over both manifests ends with the error and hands
  no rows to the writer, although the second manifest on its own yields a row.
\<close>

theorem libyear_failure_aborts_run:
  "run failing_env ''myproj'' [''myproj/package.json'', ''myproj/pkgs/foo/package.json'']
     = Inl (ExternalError ''Command failed: libyear --json'')
   \<and> (\<exists>r. run failing_env ''myproj'' [''myproj/pkgs/foo/package.json''] = Inr [r])"
proof -
  have "mainLoop failing_env ''myproj'' [''myproj/package.json'', ''myproj/pkgs/foo/package.json''] []
      = Inl (ExternalError ''Command failed: libyear --json'')"
    by (rule libyear_reject_aborts)
      (simp_all add: failing_analyze sample_analyze_root failing_env_fields sample_paths)
  then show ?thesis
    by (simp add: run_def failing_env_fields sample_basename_def failing_foo_rows)
qed


section \<open>Module labels\<close>

lemma truthy_not_nullish: "truthy v \<Longrightarrow> \<not> nullish v"
  by (cases v) simp_all

lemma js_or_object_not_nullish: "\<not> nullish (js_or v (JObj kvs))"
  by (cases "truthy v") (simp_all add: js_or_def truthy_not_nullish)

text \<open>
  Claim C7. Every declaration parsed from a manifest carries the same label: the root
  directory name when the basename of the manifest's directory equals it, and the root
  directory name, a slash and that basename otherwise. The parser returns declarations for
  every manifest that can be read and decodes to a value other than \<^verbatim>\<open>null\<close>.
\<close>

theorem module_label_of_manifest:
  "(\<forall>deps. analyzeDependencies w packageJsonPath rootDirName = Inr deps \<longrightarrow>
      (\<forall>d\<in>set deps. module d =
           (if path_basename w (path_dirname w packageJsonPath) = rootDirName then rootDirName
            else rootDirName @ ''/'' @ path_basename w (path_dirname w packageJsonPath))))
   \<and> (\<forall>content packageJson.
         fs_readFileSync w packageJsonPath = Inr content \<and> JSON_parse w content = Inr packageJson
         \<and> \<not> nullish packageJson \<longrightarrow>
         (\<exists>deps. analyzeDependencies w packageJsonPath rootDirName = Inr deps))"
  by (auto simp: analyzeDependencies_def bindE_eq_Inr Let_def getProp_def Object_keys_def
      js_or_object_not_nullish)

theorem module_label_of_manifest_witness:
  "(\<exists>deps. analyzeDependencies sample_env ''myproj/package.json'' ''myproj'' = Inr deps
       \<and> deps \<noteq> [] \<and> list_all (\<lambda>d. module d = ''myproj'') deps)
   \<and> (\<exists>deps. analyzeDependencies sample_env ''myproj/pkgs/foo/package.json'' ''myproj'' = Inr deps
       \<and> deps \<noteq> [] \<and> list_all (\<lambda>d. module d = ''myproj/foo'') deps)"
proof -
  have "list_all (\<lambda>d. module d = ''myproj'') deps"
    if "analyzeDependencies sample_env ''myproj/package.json'' ''myproj'' = Inr deps" for deps
    using module_label_of_manifest [of sample_env "''myproj/package.json''" "''myproj''"] that
    by (simp add: sample_env_fields sample_paths list_all_iff)
  moreover have "list_all (\<lambda>d. module d = ''myproj/foo'') deps"
    if "analyzeDependencies sample_env ''myproj/pkgs/foo/package.json'' ''myproj'' = Inr deps" for deps
    using module_label_of_manifest [of sample_env "''myproj/pkgs/foo/package.json''" "''myproj''"] that
    by (simp add: sample_env_fields sample_paths list_all_iff)
  moreover have "sample_deps \<noteq> []" by (simp add: sample_deps_def)
  ultimately show ?thesis
    using sample_analyze_root sample_analyze_foo by blast
qed

section \<open>The derived field of the older variant\<close>

text \<open>
  Claim C8. In the older variant the row's \<^verbatim>\<open>nodeUpgradeBlocking\<close> is \<^verbatim>\<open>FALSE\<close> when the
  four runtime results are the same string and \<^verbatim>\<open>TRUE\<close> otherwise; the row of the newer
  variant has no such field, and its fields are exactly the columns of the newer header.
\<close>

theorem node_upgrade_blocking_field:
  assumes "formatDecimal w (optProp l ''drift'') = Inr d"
    and "formatDecimal w (optProp l ''pulse'') = Inr p"
  shows "(\<exists>r. formatDependencyResult_legacy w dep l n n14 n16 n18 n20 = Inr r
            \<and> map_of r ''nodeUpgradeBlocking'' =
                Some (JStr (if n14 = n16 \<and> n16 = n18 \<and> n18 = n20 then ''FALSE'' else ''TRUE'')))
         \<and> (\<exists>r. formatDependencyResult w dep l n n16 n18 n20 = Inr r
            \<and> map_of r ''nodeUpgradeBlocking'' = None \<and> map fst r = csvHeader)
         \<and> ''nodeUpgradeBlocking'' \<in> set csvHeader_legacy
         \<and> ''nodeUpgradeBlocking'' \<notin> set csvHeader"
  using assms
  by (simp add: formatDependencyResult_def formatDependencyResult_legacy_def Let_def
      csvHeader_def csvHeader_legacy_def)


theorem node_upgrade_blocking_field_witness:
  "formatDecimal sample_env (optProp JUndefined ''drift'') = Inr ''Unknown''
   \<and> formatDecimal sample_env (optProp JUndefined ''pulse'') = Inr ''Unknown''
   \<and> (\<exists>r. formatDependencyResult_legacy sample_env
              \<lparr>dependency = ''a'', type = ''production'', version = JStr ''^1.0.0'', module = ''myproj''\<rparr>
              JUndefined JUndefined ''1.0.0'' ''2.0.0'' ''2.0.0'' ''2.0.0'' = Inr r
          \<and> map_of r ''nodeUpgradeBlocking'' = Some (JStr ''TRUE''))
   \<and> (\<exists>r. formatDependencyResult_legacy sample_env
              \<lparr>dependency = ''b'', type = ''development'', version = JStr ''~2.0.0'', module = ''myproj''\<rparr>
              JUndefined JUndefined ''N/A'' ''N/A'' ''N/A'' ''N/A'' = Inr r
          \<and> map_of r ''nodeUpgradeBlocking'' = Some (JStr ''FALSE''))"
proof -
  have d: "formatDecimal sample_env (optProp JUndefined ''drift'') = Inr ''Unknown''"
    and p: "formatDecimal sample_env (optProp JUndefined ''pulse'') = Inr ''Unknown''"
    by (simp_all add: formatDecimal_def optProp_def)
  from node_upgrade_blocking_field [OF d p, of _ JUndefined "''1.0.0''" "''2.0.0''" "''2.0.0''" "''2.0.0''"]
    node_upgrade_blocking_field [OF d p, of _ JUndefined "''N/A''" "''N/A''" "''N/A''" "''N/A''"]
    d p
  show ?thesis by simp
qed

section \<open>One compatibility record per declaration\<close>

lemma compatLoop_result:
  "compatLoop f deps acc = Inr rs \<Longrightarrow>
   \<exists>zs. rs = acc @ zs \<and> map fst zs = map dependency deps
        \<and> list_all (\<lambda>r. f (fst r) = Inr (snd r)) zs"
proof (induction deps arbitrary: acc)
  case Nil
  then show ?case by simp
next
  case (Cons dep deps)
  from Cons.prems obtain nc where nc: "f (dependency dep) = Inr nc"
    and rest: "compatLoop f deps (acc @ [(dependency dep, nc)]) = Inr rs"
    by (auto simp: bindE_eq_Inr)
  from Cons.IH [OF rest] obtain zs where
    "rs = (acc @ [(dependency dep, nc)]) @ zs" "map fst zs = map dependency deps"
    "list_all (\<lambda>r. f (fst r) = Inr (snd r)) zs" by blast
  with nc have "rs = acc @ ((dependency dep, nc) # zs)
      \<and> map fst ((dependency dep, nc) # zs) = map dependency (dep # deps)
      \<and> list_all (\<lambda>r. f (fst r) = Inr (snd r)) ((dependency dep, nc) # zs)"
    by simp
  then show ?case by blast
qed

lemma compatLoop_returns:
  "\<forall>d\<in>set deps. \<exists>c. f (dependency d) = Inr c \<Longrightarrow> \<exists>rs. compatLoop f deps acc = Inr rs"
  by (induction deps arbitrary: acc) (auto simp: bindE_eq_Inr)

lemma findCompat_found:
  assumes "list_all (\<lambda>r. f (fst r) = Inr (snd r)) rs" and "name \<in> fst ` set rs"
  shows "\<exists>c. findCompat name rs = Inr c \<and> f name = Inr c"
proof -
  from assms(2) have "find (\<lambda>r. fst r = name) rs \<noteq> None"
    by (auto simp: find_None_iff)
  then obtain r where r: "find (\<lambda>r. fst r = name) rs = Some r" by blast
  then have "fst r = name" "r \<in> set rs"
    by (auto simp: find_Some_iff)
  with assms(1) have "f name = Inr (snd r)" by (auto simp: list_all_iff)
  with r show ?thesis by (simp add: findCompat_def)
qed

lemma compatLoop_lookup:
  assumes "compatLoop f deps [] = Inr rs"
  shows "map fst rs = map dependency deps
         \<and> (\<forall>d\<in>set deps. \<exists>c. findCompat (dependency d) rs = Inr c \<and> f (dependency d) = Inr c)"
proof -
  from compatLoop_result [OF assms] have m: "map fst rs = map dependency deps"
    and a: "list_all (\<lambda>r. f (fst r) = Inr (snd r)) rs" by auto
  have "dependency d \<in> fst ` set rs" if "d \<in> set deps" for d
  proof -
    from that have "dependency d \<in> set (map dependency deps)" by simp
    with m show ?thesis by (metis set_map)
  qed
  with a m show ?thesis by (blast intro: findCompat_found)
qed

lemma findLatest_returns:
  assumes "truthy npmData" and "\<not> nullish (getMember npmData ''versions'')"
  shows "\<exists>res. findLatestCompatibleVersion w npmData r = Inr res"
  by (simp add: findLatest_unfold [OF assms] Let_def)

lemma findNodeCompatibility_returns:
  assumes "fetchNpmPackageInfo w name = Inr body" and "snapshot_or_sentinel body"
  shows "\<exists>c. findNodeCompatibility w name = Inr c"
    and "\<exists>c. findNodeCompatibility_legacy w name = Inr c"
proof -
  show "\<exists>c. findNodeCompatibility w name = Inr c"
  proof (cases "\<not> truthy body \<or> body = JStr ''N/A''")
    case True
    with assms(1) show ?thesis by (auto simp: findNodeCompatibility_def)
  next
    case False
    with assms(2) have t: "truthy body" and n: "\<not> nullish (getMember body ''versions'')"
      by (auto simp: snapshot_or_sentinel_def)
    from findLatest_returns [OF t n, of w] obtain a b c where
      "findLatestCompatibleVersion w body ''^16.0.0'' = Inr a"
      "findLatestCompatibleVersion w body ''^18.0.0'' = Inr b"
      "findLatestCompatibleVersion w body ''^20.0.0'' = Inr c" by metis
    with assms(1) False show ?thesis by (simp add: findNodeCompatibility_def)
  qed
  show "\<exists>c. findNodeCompatibility_legacy w name = Inr c"
  proof (cases "\<not> truthy body \<or> body = JStr ''N/A''")
    case True
    with assms(1) show ?thesis by (auto simp: findNodeCompatibility_legacy_def)
  next
    case False
    with assms(2) have t: "truthy body" and n: "\<not> nullish (getMember body ''versions'')"
      by (auto simp: snapshot_or_sentinel_def)
    from findLatest_returns [OF t n, of w] obtain a b c d where
      "findLatestCompatibleVersion w body ''^14.0.0'' = Inr d"
      "findLatestCompatibleVersion w body ''^16.0.0'' = Inr a"
      "findLatestCompatibleVersion w body ''^18.0.0'' = Inr b"
      "findLatestCompatibleVersion w body ''^20.0.0'' = Inr c" by metis
    with assms(1) False show ?thesis by (simp add: findNodeCompatibility_legacy_def)
  qed
qed

text \<open>
  Claim C10. In both variants, when \<^verbatim>\<open>runNodeCompatibility\<close> returns, its results bear the
  declarations' names one for one and in order, and the lookup by a declaration's name
  finds a record, which holds that dependency's compatibility result. It does return
  whenever the Registry Client yields the sentinel or a snapshot for every declaration.
\<close>

theorem compatibility_lookup_always_finds:
  "(\<forall>rs. runNodeCompatibility w deps = Inr rs \<longrightarrow>
       map fst rs = map dependency deps
       \<and> (\<forall>d\<in>set deps. \<exists>c. findCompat (dependency d) rs = Inr c
                              \<and> findNodeCompatibility w (dependency d) = Inr c))
   \<and> (\<forall>rs. runNodeCompatibility_legacy w deps = Inr rs \<longrightarrow>
       map fst rs = map dependency deps
       \<and> (\<forall>d\<in>set deps. \<exists>c. findCompat (dependency d) rs = Inr c
                              \<and> findNodeCompatibility_legacy w (dependency d) = Inr c))
   \<and> ((\<forall>d\<in>set deps. \<exists>body. fetchNpmPackageInfo w (dependency d) = Inr body
                               \<and> snapshot_or_sentinel body) \<longrightarrow>
       (\<exists>rs. runNodeCompatibility w deps = Inr rs)
       \<and> (\<exists>rs. runNodeCompatibility_legacy w deps = Inr rs))"
proof (intro conjI allI impI)
  fix rs assume "runNodeCompatibility w deps = Inr rs"
  then have "compatLoop (findNodeCompatibility w) deps [] = Inr rs"
    by (simp add: runNodeCompatibility_def)
  from compatLoop_lookup [OF this]
  show "map fst rs = map dependency deps"
    and "\<forall>d\<in>set deps. \<exists>c. findCompat (dependency d) rs = Inr c
                              \<and> findNodeCompatibility w (dependency d) = Inr c"
    by blast+
next
  fix rs assume "runNodeCompatibility_legacy w deps = Inr rs"
  then have "compatLoop (findNodeCompatibility_legacy w) deps [] = Inr rs"
    by (simp add: runNodeCompatibility_legacy_def)
  from compatLoop_lookup [OF this]
  show "map fst rs = map dependency deps"
    and "\<forall>d\<in>set deps. \<exists>c. findCompat (dependency d) rs = Inr c
                              \<and> findNodeCompatibility_legacy w (dependency d) = Inr c"
    by blast+
next
  assume ok: "\<forall>d\<in>set deps. \<exists>body. fetchNpmPackageInfo w (dependency d) = Inr body
                               \<and> snapshot_or_sentinel body"
  then have "\<forall>d\<in>set deps. \<exists>c. findNodeCompatibility w (dependency d) = Inr c"
    using findNodeCompatibility_returns(1) by blast
  from compatLoop_returns [OF this]
  show "\<exists>rs. runNodeCompatibility w deps = Inr rs"
    by (simp add: runNodeCompatibility_def)
  from ok have "\<forall>d\<in>set deps. \<exists>c. findNodeCompatibility_legacy w (dependency d) = Inr c"
    using findNodeCompatibility_returns(2) by blast
  from compatLoop_returns [OF this]
  show "\<exists>rs. runNodeCompatibility_legacy w deps = Inr rs"
    by (simp add: runNodeCompatibility_legacy_def)
qed

text \<open>The compatibility run of the sample's root manifest.\<close>

lemma sample_fetch:
  "fetchNpmPackageInfo sample_env ''a'' = Inr sample_snapshot"
  "fetchNpmPackageInfo sample_env ''b'' = Inr (JStr ''N/A'')"
  by (simp_all add: fetchNpmPackageInfo_def sample_env_def)

lemma sample_snapshot_ok: "truthy sample_snapshot" "sample_snapshot \<noteq> JStr ''N/A''"
  "\<not> nullish (getMember sample_snapshot ''versions'')"
  by (simp_all add: sample_snapshot_versions sample_versions_def) (simp_all add: sample_snapshot_def)

lemma sample_registry_ok:
  "\<forall>d\<in>set sample_deps. \<exists>body. fetchNpmPackageInfo sample_env (dependency d) = Inr body
                               \<and> snapshot_or_sentinel body"
  by (simp add: sample_deps_def sample_fetch snapshot_or_sentinel_def sample_snapshot_ok)

theorem compatibility_lookup_always_finds_witness:
  "\<exists>rs. runNodeCompatibility sample_env sample_deps = Inr rs
       \<and> map fst rs = [''a'', ''b'']
       \<and> (\<exists>c. findCompat ''a'' rs = Inr c) \<and> (\<exists>c. findCompat ''b'' rs = Inr c)"
proof -
  note th = compatibility_lookup_always_finds [of sample_env sample_deps]
  from th sample_registry_ok obtain rs where
    rs: "runNodeCompatibility sample_env sample_deps = Inr rs" by blast
  with th have "map fst rs = map dependency sample_deps"
    and "\<forall>d\<in>set sample_deps. \<exists>c. findCompat (dependency d) rs = Inr c
                              \<and> findNodeCompatibility sample_env (dependency d) = Inr c"
    by blast+
  then have "map fst rs = [''a'', ''b'']" "\<exists>c. findCompat ''a'' rs = Inr c"
    "\<exists>c. findCompat ''b'' rs = Inr c"
    by (auto simp: sample_deps_def)
  with rs show ?thesis by (intro exI [of _ rs]) simp
qed

section \<open>Formatting numbers\<close>

lemma formatDecimal_numeric:
  "numeric_or_missing v \<Longrightarrow> \<exists>s. formatDecimal w v = Inr s"
  by (cases v) (auto simp: formatDecimal_def)

lemma formatDecimal_missing [simp]:
  "formatDecimal w JUndefined = Inr ''Unknown''" "formatDecimal w JNull = Inr ''Unknown''"
  by (simp_all add: formatDecimal_def)

lemma digits_no_point: "CHR ''.'' \<notin> set (digits n)"
proof (induction n rule: digits.induct)
  case (1 n)
  show ?case
  proof (cases "n < 10")
    case True
    then show ?thesis using digit_char_not_point [of n] by (simp add: digits.simps [of n])
  next
    case False
    with 1 show ?thesis
      using digit_char_not_point [of "n mod 10"] by (simp add: digits.simps [of n])
  qed
qed

lemma digits_nonempty: "digits n \<noteq> []"
  by (subst digits.simps) simp

lemma digits_small: "n < 10 \<Longrightarrow> digits n = [digit_char n]"
  by (subst digits.simps) simp

lemma digits_step: "10 \<le> n \<Longrightarrow> digits n = digits (n div 10) @ [digit_char (n mod 10)]"
  by (subst digits.simps) simp

lemma digits_two: "10 \<le> n \<Longrightarrow> n < 100 \<Longrightarrow> digits n = [digit_char (n div 10), digit_char (n mod 10)]"
  by (simp add: digits_step digits_small)

lemma digits_hundreds:
  assumes "100 \<le> n"
  shows "digits n = digits (n div 100) @ [digit_char (n div 10 mod 10), digit_char (n mod 10)]"
proof -
  from assms have "10 \<le> n" "10 \<le> n div 10" by simp_all
  then have "digits n = (digits (n div 10 div 10) @ [digit_char (n div 10 mod 10)])
      @ [digit_char (n mod 10)]"
    by (simp add: digits_step)
  then show ?thesis by (simp add: div_mult2_eq [symmetric])
qed

text \<open>The point, two digits: the shape of every padded digit string.\<close>

lemma pad_split:
  "(let m = digits n;
        m' = (if length m \<le> 2 then replicate (3 - length m) (CHR ''0'') @ m else m);
        k = length m'
    in take (k - 2) m' @ ''.'' @ drop (k - 2) m')
   = digits (n div 100) @ ''.'' @ [digit_char (n div 10 mod 10), digit_char (n mod 10)]"
proof -
  consider "n < 10" | "10 \<le> n" "n < 100" | "100 \<le> n" by linarith
  then show ?thesis
  proof cases
    case 1
    then show ?thesis
      by (simp add: digits_small Let_def digit_char_def numeral_3_eq_3)
  next
    case 2
    then have "n div 100 = 0" by simp
    with 2 show ?thesis
      by (simp add: digits_two digits_small Let_def digit_char_def)
  next
    case 3
    with digits_nonempty [of "n div 100"] show ?thesis
      by (simp add: digits_hundreds Let_def)
  qed
qed


lemma replace_first_at:
  "a \<notin> set xs \<Longrightarrow> replace_first a b (xs @ a # ys) = xs @ b # ys"
  by (induction xs) auto

lemma toFixed2_finite:
  assumes "\<bar>q\<bar> < 10 ^ 21"
  shows "toFixed2 w (Fin q) =
     (if q < 0 then ''-'' else []) @ digits (nat \<lfloor>\<bar>q\<bar> * 100 + 1 / 2\<rfloor> div 100) @ ''.''
       @ [digit_char (nat \<lfloor>\<bar>q\<bar> * 100 + 1 / 2\<rfloor> div 10 mod 10),
          digit_char (nat \<lfloor>\<bar>q\<bar> * 100 + 1 / 2\<rfloor> mod 10)]"
proof -
  from assms have "\<not> 10 ^ 21 \<le> \<bar>q\<bar>" by simp
  then show ?thesis
    unfolding toFixed2_def jsnum.case
    by (simp only: Let_def if_False pad_split [unfolded Let_def])
qed

lemma formatDecimal_finite:
  assumes "\<bar>q\<bar> < 10 ^ 21"
  shows "formatDecimal w (JNum (Fin q)) =
     Inr ((if q < 0 then ''-'' else []) @ digits (nat \<lfloor>\<bar>q\<bar> * 100 + 1 / 2\<rfloor> div 100) @ '',''
       @ [digit_char (nat \<lfloor>\<bar>q\<bar> * 100 + 1 / 2\<rfloor> div 10 mod 10),
          digit_char (nat \<lfloor>\<bar>q\<bar> * 100 + 1 / 2\<rfloor> mod 10)])"
proof -
  let ?n = "nat \<lfloor>\<bar>q\<bar> * 100 + 1 / 2\<rfloor>"
  let ?sd = "(if q < 0 then ''-'' else []) @ digits (?n div 100)"
  have "CHR ''.'' \<notin> set ?sd" using digits_no_point [of "?n div 100"] by simp
  from replace_first_at [OF this, of "CHR '',''" "[digit_char (?n div 10 mod 10), digit_char (?n mod 10)]"]
  show ?thesis
    by (simp add: formatDecimal_def toFixed2_finite [OF assms])
qed

lemma two_decimal_comma_shape:
  assumes "list_all is_digit ds" and "ds \<noteq> []" and "is_digit d1" and "is_digit d2"
  shows "two_decimal_comma (ds @ '','' @ [d1, d2])"
    and "two_decimal_comma (''-'' @ ds @ '','' @ [d1, d2])"
proof -
  from assms(1,2) have h: "hd ds \<noteq> CHR ''-''"
    by (cases ds) (auto simp: is_digit_def)
  have len: "length (ds @ '','' @ [d1, d2]) - 3 = length ds" by simp
  show "two_decimal_comma (ds @ '','' @ [d1, d2])"
    using assms h by (cases ds) (simp_all add: two_decimal_comma_def Let_def nth_append)
  show "two_decimal_comma (''-'' @ ds @ '','' @ [d1, d2])"
    using assms by (simp add: two_decimal_comma_def Let_def nth_append Suc_le_eq)
qed


lemma rounding_error:
  fixes a :: rat
  assumes "0 \<le> a"
  shows "\<bar>of_nat (nat \<lfloor>a * 100 + 1 / 2\<rfloor>) / 100 - a\<bar> \<le> 1 / 200"
proof -
  define z where "z = \<lfloor>a * 100 + 1 / 2\<rfloor>"
  from assms have "0 \<le> a * 100 + 1 / 2" by simp
  then have "0 \<le> z" unfolding z_def by simp
  then have eq: "(of_nat (nat z) :: rat) = of_int z" by simp
  have "of_int z \<le> a * 100 + 1 / 2" "a * 100 + 1 / 2 < of_int z + 1"
    unfolding z_def by linarith+
  then have "of_int z / 100 - a \<le> 1 / 200" "- (1 / 200) \<le> of_int z / 100 - a"
    by linarith+
  then have "\<bar>of_int z / 100 - a\<bar> \<le> 1 / 200" by (intro abs_leI) linarith+
  then show ?thesis unfolding z_def [symmetric] eq .
qed

lemma rendered_shape:
  "two_decimal_comma ((if neg then ''-'' else []) @ digits k @ '',''
      @ [digit_char (i mod 10), digit_char (j mod 10)])"
  using two_decimal_comma_shape [OF digits_is_digit [of k] digits_nonempty
      digit_char_is_digit [of "i mod 10"] digit_char_is_digit [of "j mod 10"]]
  by simp

text \<open>
  Claim C9, as amended. For every finite number of magnitude below \<open>10\<^sup>2\<^sup>1\<close>,
  \<^verbatim>\<open>formatDecimal\<close> returns a two-decimal string with a comma as the decimal separator:
  the sign, the decimal digits of the whole part, a comma and two digits, which together
  denote the multiple of a hundredth nearest to the number. \<^verbatim>\<open>undefined\<close> and \<^verbatim>\<open>null\<close>
  are rendered as \<^verbatim>\<open>Unknown\<close>, and in every report row a missing count (releases, major,
  minor, patch) is the string \<^verbatim>\<open>0\<close>.
\<close>

theorem formatDecimal_two_decimals:
  assumes "\<bar>q\<bar> < 10 ^ 21"
  shows "(\<exists>s. formatDecimal w (JNum (Fin q)) = Inr s \<and> two_decimal_comma s
             \<and> s = (if q < 0 then ''-'' else []) @ digits (nat \<lfloor>\<bar>q\<bar> * 100 + 1 / 2\<rfloor> div 100)
                   @ '','' @ [digit_char (nat \<lfloor>\<bar>q\<bar> * 100 + 1 / 2\<rfloor> div 10 mod 10),
                             digit_char (nat \<lfloor>\<bar>q\<bar> * 100 + 1 / 2\<rfloor> mod 10)])
         \<and> \<bar>of_nat (nat \<lfloor>\<bar>q\<bar> * 100 + 1 / 2\<rfloor>) / 100 - \<bar>q\<bar>\<bar> \<le> 1 / 200
         \<and> formatDecimal w JUndefined = Inr ''Unknown''
         \<and> formatDecimal w JNull = Inr ''Unknown''
         \<and> (\<forall>row. formatDependencyResult w dep l n n16 n18 n20 = Inr row \<longrightarrow>
               (\<not> truthy (optProp l ''releases'') \<longrightarrow> map_of row ''releases'' = Some (JStr ''0''))
             \<and> (\<not> truthy (optProp l ''major'') \<longrightarrow> map_of row ''major'' = Some (JStr ''0''))
             \<and> (\<not> truthy (optProp l ''minor'') \<longrightarrow> map_of row ''minor'' = Some (JStr ''0''))
             \<and> (\<not> truthy (optProp l ''patch'') \<longrightarrow> map_of row ''patch'' = Some (JStr ''0'')))"
proof -
  have counts: "(\<not> truthy (optProp l ''releases'') \<longrightarrow> map_of row ''releases'' = Some (JStr ''0''))
             \<and> (\<not> truthy (optProp l ''major'') \<longrightarrow> map_of row ''major'' = Some (JStr ''0''))
             \<and> (\<not> truthy (optProp l ''minor'') \<longrightarrow> map_of row ''minor'' = Some (JStr ''0''))
             \<and> (\<not> truthy (optProp l ''patch'') \<longrightarrow> map_of row ''patch'' = Some (JStr ''0''))"
    if "formatDependencyResult w dep l n n16 n18 n20 = Inr row" for row
    using that
    by (auto simp: formatDependencyResult_def Let_def bindE_eq_Inr js_or_def)
  have err: "\<bar>of_nat (nat \<lfloor>\<bar>q\<bar> * 100 + 1 / 2\<rfloor>) / 100 - \<bar>q\<bar>\<bar> \<le> 1 / 200"
    by (rule rounding_error) simp
  have "\<exists>s. formatDecimal w (JNum (Fin q)) = Inr s \<and> two_decimal_comma s
             \<and> s = (if q < 0 then ''-'' else []) @ digits (nat \<lfloor>\<bar>q\<bar> * 100 + 1 / 2\<rfloor> div 100)
                   @ '','' @ [digit_char (nat \<lfloor>\<bar>q\<bar> * 100 + 1 / 2\<rfloor> div 10 mod 10),
                             digit_char (nat \<lfloor>\<bar>q\<bar> * 100 + 1 / 2\<rfloor> mod 10)]"
    using formatDecimal_finite [OF assms, of w]
      rendered_shape [of "q < 0" "nat \<lfloor>\<bar>q\<bar> * 100 + 1 / 2\<rfloor> div 100"
        "nat \<lfloor>\<bar>q\<bar> * 100 + 1 / 2\<rfloor> div 10" "nat \<lfloor>\<bar>q\<bar> * 100 + 1 / 2\<rfloor>"]
    by (simp only: mod_mod_trivial) blast
  with err counts show ?thesis by (simp only: formatDecimal_missing) blast
qed


text \<open>The specification's example: the double \<^verbatim>\<open>3.14159\<close> is rendered as \<^verbatim>\<open>3,14\<close>.\<close>

lemma floor_numeral_fraction:
  "\<lfloor>(numeral a / numeral b :: rat)\<rfloor> = numeral a div numeral b"
  using floor_divide_of_int_eq [of "numeral a" "numeral b", where ?'a = rat] by simp

theorem formatDecimal_two_decimals_witness:
  "\<bar>3537115888337719 / 1125899906842624 :: rat\<bar> < 10 ^ 21
   \<and> formatDecimal sample_env (JNum (Fin (3537115888337719 / 1125899906842624))) = Inr ''3,14''"
proof -
  have b: "\<bar>3537115888337719 / 1125899906842624 :: rat\<bar> < 10 ^ 21" by simp
  have n: "nat \<lfloor>\<bar>3537115888337719 / 1125899906842624 :: rat\<bar> * 100 + 1 / 2\<rfloor> = 314"
    by (simp add: floor_numeral_fraction)
  from formatDecimal_two_decimals [OF b, of sample_env] b
  show ?thesis
    unfolding n by (simp add: digits_small digit_char_def)
qed

text \<open>
  Claim C9 as stated fails on a number that is not finite: \<^verbatim>\<open>JSON.parse\<close> reads
  \<^verbatim>\<open>1e999\<close> as \<^verbatim>\<open>Infinity\<close>, which \<^verbatim>\<open>toFixed\<close> prints by name.
\<close>

theorem formatDecimal_infinity_counterexample:
  "formatDecimal sample_env (JNum PosInf) = Inr ''Infinity''
   \<and> \<not> two_decimal_comma ''Infinity''"
  by (simp add: formatDecimal_def toFixed2_def two_decimal_comma_def is_digit_def Let_def)

section \<open>Joining the three results\<close>

lemma findBy_miss:
  "list_all (\<lambda>r. \<not> nullish r) rs \<Longrightarrow> \<forall>r\<in>set rs. getMember r p \<noteq> JStr name \<Longrightarrow>
   findBy p name rs = Inr JUndefined"
  by (induction rs) (simp_all add: getProp_def)

lemma findBy_hit:
  "list_all (\<lambda>r. \<not> nullish r) rs \<Longrightarrow> \<exists>r\<in>set rs. getMember r p = JStr name \<Longrightarrow>
   \<exists>v. findBy p name rs = Inr v \<and> v \<in> set rs \<and> getMember v p = JStr name"
proof (induction rs)
  case Nil
  then show ?case by simp
next
  case (Cons r rs)
  show ?case
  proof (cases "getMember r p = JStr name")
    case True
    with Cons.prems show ?thesis by (simp add: getProp_def)
  next
    case False
    with Cons.prems have "\<exists>r\<in>set rs. getMember r p = JStr name" by simp
    with Cons.IH Cons.prems obtain v where
      "findBy p name rs = Inr v" "v \<in> set rs" "getMember v p = JStr name" by auto
    with False Cons.prems show ?thesis by (simp add: getProp_def)
  qed
qed

lemma drift_record_records: "list_all drift_record ls \<Longrightarrow> list_all (\<lambda>r. \<not> nullish r) ls"
  by (induction ls) (auto simp: drift_record_def)

lemma formatDecimal_opt:
  assumes "l = JUndefined \<or> drift_record l"
  shows "\<exists>s. formatDecimal w (optProp l ''drift'') = Inr s"
    and "\<exists>s. formatDecimal w (optProp l ''pulse'') = Inr s"
  using assms
  by (auto simp: optProp_def drift_record_def intro: formatDecimal_numeric)


lemma findBy_total:
  assumes "list_all (\<lambda>r. \<not> nullish r) rs"
  shows "\<exists>v. findBy p name rs = Inr v
           \<and> (v = JUndefined \<or> v \<in> set rs \<and> getMember v p = JStr name)
           \<and> ((\<forall>r\<in>set rs. getMember r p \<noteq> JStr name) \<longrightarrow> v = JUndefined)"
proof (cases "\<exists>r\<in>set rs. getMember r p = JStr name")
  case True
  from findBy_hit [OF assms True] True show ?thesis by blast
next
  case False
  then have "\<forall>r\<in>set rs. getMember r p \<noteq> JStr name" by simp
  from findBy_miss [OF assms this] show ?thesis by simp
qed

lemma optProp_undefined [simp]: "optProp JUndefined k = JUndefined"
  by (simp add: optProp_def)

lemma getMember_empty [simp]: "getMember (JObj []) k = JUndefined"
  by (simp add: getMember_def)

lemma js_or_undefined [simp]: "js_or JUndefined b = b"
  by (simp add: js_or_def)

lemma findBy_first_match:
  "list_all (\<lambda>r. \<not> nullish r) rs \<Longrightarrow> findBy p name rs = Inr (first_match p name rs)"
  by (induction rs) (simp_all add: first_match_def getProp_def)

lemma first_match_cases:
  "first_match p name rs = JUndefined \<and> (\<forall>r\<in>set rs. getMember r p \<noteq> JStr name)
   \<or> first_match p name rs \<in> set rs \<and> getMember (first_match p name rs) p = JStr name"
proof (cases "filter (\<lambda>r. getMember r p = JStr name) rs")
  case Nil
  then show ?thesis by (simp add: first_match_def filter_empty_conv)
next
  case (Cons r rest)
  then have "r \<in> set (filter (\<lambda>r. getMember r p = JStr name) rs)" by simp
  then have "r \<in> set rs" "getMember r p = JStr name" by simp_all
  with Cons show ?thesis by (simp add: first_match_def)
qed

lemma first_match_miss:
  "\<forall>r\<in>set rs. getMember r p \<noteq> JStr name \<Longrightarrow> first_match p name rs = JUndefined"
  by (simp add: first_match_def filter_False)

lemma field_or_optProp: "js_or (optProp l k) dflt = field_or l k dflt"
  by (simp add: js_or_def optProp_def field_or_def)

lemma getMember_falsy: "\<not> truthy n \<Longrightarrow> getMember n k = JUndefined"
proof (cases n)
  case (JNum x)
  then show ?thesis by (simp add: getMember_def)
next
  case (JStr s)
  assume "\<not> truthy n"
  with JStr show ?thesis by (simp add: getMember_def indexKeys_def)
qed (simp_all add: getMember_def)

lemma field_or_data: "js_or (getMember (js_or n (JObj [])) k) dflt = field_or n k dflt"
proof (cases "truthy n")
  case True
  then have "\<not> nullish n" by (rule truthy_not_nullish)
  with True show ?thesis by (simp add: js_or_def field_or_def)
next
  case False
  then show ?thesis
    by (simp add: js_or_def field_or_def getMember_falsy)
qed


text \<open>
  Claim C6. With result lists of the documented shapes, the join of a declaration always
  yields a row, and the row is the join by name: its identity fields are the
  declaration's; its drift fields are those of the first drift record that bears the
  declaration's name, its outdated-check fields those of the first outdated-check record
  that bears it, and its runtime columns the compatibility result of that dependency,
  which the lookup finds. A field whose record or value is missing takes its default; so
  when no drift record has the name, the drift fields are \<^verbatim>\<open>Unknown\<close> and the counts
  \<^verbatim>\<open>0\<close>, and when no outdated-check record has it, the versions are \<^verbatim>\<open>Unknown\<close> and
  the flags false.
\<close>

theorem join_miss_degrades_to_defaults:
  assumes "list_all drift_record ls" and "list_all (\<lambda>r. \<not> nullish r) ps"
    and "runNodeCompatibility w deps = Inr cs" and "dep \<in> set deps"
    and "l = first_match ''dependency'' (dependency dep) ls"
    and "n = first_match ''moduleName'' (dependency dep) ps"
  shows "\<exists>row c d p. joinRow w (JArr ls) (JArr ps) cs dep = Inr row
     \<and> findBy ''dependency'' (dependency dep) ls = Inr l
     \<and> (l = JUndefined \<or> getMember l ''dependency'' = JStr (dependency dep))
     \<and> findBy ''moduleName'' (dependency dep) ps = Inr n
     \<and> (n = JUndefined \<or> getMember n ''moduleName'' = JStr (dependency dep))
     \<and> findCompat (dependency dep) cs = Inr c
     \<and> (dependency dep, c) \<in> set cs
     \<and> findNodeCompatibility w (dependency dep) = Inr c
     \<and> formatDecimal w (if l = JUndefined then JUndefined else getMember l ''drift'') = Inr d
     \<and> formatDecimal w (if l = JUndefined then JUndefined else getMember l ''pulse'') = Inr p
     \<and> row = [(''module'', JStr (module dep)),
               (''dependency'', JStr (dependency dep)),
               (''type'', JStr (type dep)),
               (''currentVersion'', version dep),
               (''latestVersion'', field_or l ''available'' (JStr ''Unknown'')),
               (''npmLatest'', field_or n ''latest'' (JStr ''Unknown'')),
               (''npmWanted'', field_or n ''packageWanted'' (JStr ''Unknown'')),
               (''easyUpgrade'', field_or n ''easyUpgrade'' (JBool False)),
               (''node16Version'', JStr (node16Version c)),
               (''node18Version'', JStr (node18Version c)),
               (''node20Version'', JStr (node20Version c)),
               (''unused'', field_or n ''unused'' (JBool False)),
               (''drift'', JStr d),
               (''pulse'', JStr p),
               (''releases'', field_or l ''releases'' (JStr ''0'')),
               (''major'', field_or l ''major'' (JStr ''0'')),
               (''minor'', field_or l ''minor'' (JStr ''0'')),
               (''patch'', field_or l ''patch'' (JStr ''0''))]
     \<and> ((\<forall>r\<in>set ls. getMember r ''dependency'' \<noteq> JStr (dependency dep)) \<longrightarrow>
          l = JUndefined
          \<and> map_of row ''latestVersion'' = Some (JStr ''Unknown'')
          \<and> map_of row ''drift'' = Some (JStr ''Unknown'')
          \<and> map_of row ''pulse'' = Some (JStr ''Unknown'')
          \<and> map_of row ''releases'' = Some (JStr ''0'')
          \<and> map_of row ''major'' = Some (JStr ''0'')
          \<and> map_of row ''minor'' = Some (JStr ''0'')
          \<and> map_of row ''patch'' = Some (JStr ''0''))
     \<and> ((\<forall>r\<in>set ps. getMember r ''moduleName'' \<noteq> JStr (dependency dep)) \<longrightarrow>
          n = JUndefined
          \<and> map_of row ''npmLatest'' = Some (JStr ''Unknown'')
          \<and> map_of row ''npmWanted'' = Some (JStr ''Unknown'')
          \<and> map_of row ''easyUpgrade'' = Some (JBool False)
          \<and> map_of row ''unused'' = Some (JBool False))"
proof -
  let ?name = "dependency dep"
  have l: "findBy ''dependency'' ?name ls = Inr l"
    using findBy_first_match [OF drift_record_records [OF assms(1)]] assms(5) by simp
  have n: "findBy ''moduleName'' ?name ps = Inr n"
    using findBy_first_match [OF assms(2)] assms(6) by simp
  have l1: "l = JUndefined \<or> l \<in> set ls \<and> getMember l ''dependency'' = JStr ?name"
    using first_match_cases [of "''dependency''" ?name ls] assms(5) by blast
  have n1: "n = JUndefined \<or> n \<in> set ps \<and> getMember n ''moduleName'' = JStr ?name"
    using first_match_cases [of "''moduleName''" ?name ps] assms(6) by blast
  have l2: "(\<forall>r\<in>set ls. getMember r ''dependency'' \<noteq> JStr ?name) \<longrightarrow> l = JUndefined"
    using first_match_miss [of ls "''dependency''" ?name] assms(5) by blast
  have n2: "(\<forall>r\<in>set ps. getMember r ''moduleName'' \<noteq> JStr ?name) \<longrightarrow> n = JUndefined"
    using first_match_miss [of ps "''moduleName''" ?name] assms(6) by blast
  from assms(3) have "compatLoop (findNodeCompatibility w) deps [] = Inr cs"
    by (simp add: runNodeCompatibility_def)
  from compatLoop_lookup [OF this] assms(4)
  obtain c where c: "findCompat ?name cs = Inr c" "findNodeCompatibility w ?name = Inr c"
    by blast
  from c(1) obtain r where "find (\<lambda>r. fst r = ?name) cs = Some r" "snd r = c"
    by (auto simp: findCompat_def split: option.splits)
  then have "fst r = ?name" "r \<in> set cs" "snd r = c"
    by (auto simp: find_Some_iff)
  then have mem: "(?name, c) \<in> set cs" by (metis prod.collapse)
  from l1 assms(1) have rec: "l = JUndefined \<or> drift_record l" by (auto simp: list_all_iff)
  from formatDecimal_opt [OF this, of w]
  obtain d p where d: "formatDecimal w (optProp l ''drift'') = Inr d"
    and p: "formatDecimal w (optProp l ''pulse'') = Inr p" by blast
  from rec have opt: "optProp l k = (if l = JUndefined then JUndefined else getMember l k)" for k
    by (auto simp: optProp_def drift_record_def)
  let ?row = "[(''module'', JStr (module dep)),
               (''dependency'', JStr (dependency dep)),
               (''type'', JStr (type dep)),
               (''currentVersion'', version dep),
               (''latestVersion'', field_or l ''available'' (JStr ''Unknown'')),
               (''npmLatest'', field_or n ''latest'' (JStr ''Unknown'')),
               (''npmWanted'', field_or n ''packageWanted'' (JStr ''Unknown'')),
               (''easyUpgrade'', field_or n ''easyUpgrade'' (JBool False)),
               (''node16Version'', JStr (node16Version c)),
               (''node18Version'', JStr (node18Version c)),
               (''node20Version'', JStr (node20Version c)),
               (''unused'', field_or n ''unused'' (JBool False)),
               (''drift'', JStr d),
               (''pulse'', JStr p),
               (''releases'', field_or l ''releases'' (JStr ''0'')),
               (''major'', field_or l ''major'' (JStr ''0'')),
               (''minor'', field_or l ''minor'' (JStr ''0'')),
               (''patch'', field_or l ''patch'' (JStr ''0''))]"
  have row: "joinRow w (JArr ls) (JArr ps) cs dep = Inr ?row"
    using l n c d p
    by (simp add: joinRow_def arrayFindBy_def formatDependencyResult_def Let_def
        field_or_optProp field_or_data)
  have d': "formatDecimal w (if l = JUndefined then JUndefined else getMember l ''drift'') = Inr d"
    and p': "formatDecimal w (if l = JUndefined then JUndefined else getMember l ''pulse'') = Inr p"
    using d p by (simp_all only: opt)
  have miss_l: "map_of ?row ''latestVersion'' = Some (JStr ''Unknown'')
          \<and> map_of ?row ''drift'' = Some (JStr ''Unknown'')
          \<and> map_of ?row ''pulse'' = Some (JStr ''Unknown'')
          \<and> map_of ?row ''releases'' = Some (JStr ''0'')
          \<and> map_of ?row ''major'' = Some (JStr ''0'')
          \<and> map_of ?row ''minor'' = Some (JStr ''0'')
          \<and> map_of ?row ''patch'' = Some (JStr ''0'')" if "l = JUndefined"
    using that d p by (simp add: field_or_def)
  have miss_n: "map_of ?row ''npmLatest'' = Some (JStr ''Unknown'')
          \<and> map_of ?row ''npmWanted'' = Some (JStr ''Unknown'')
          \<and> map_of ?row ''easyUpgrade'' = Some (JBool False)
          \<and> map_of ?row ''unused'' = Some (JBool False)" if "n = JUndefined"
    using that by (simp add: field_or_def)
  from l1 have l1': "l = JUndefined \<or> getMember l ''dependency'' = JStr ?name" by blast
  from n1 have n1': "n = JUndefined \<or> getMember n ''moduleName'' = JStr ?name" by blast
  show ?thesis
    apply (rule exI [of _ ?row], rule exI [of _ c], rule exI [of _ d], rule exI [of _ p])
    using row l l1' n n1' c mem d' p' l2 n2 miss_l miss_n by blast
qed


text \<open>
  The sample's root manifest: the row of \<^verbatim>\<open>a\<close> carries the records of \<^verbatim>\<open>a\<close>, the row of
  \<^verbatim>\<open>b\<close>, which neither list knows, the defaults.
\<close>

lemma sample_latest:
  "findLatestCompatibleVersion sample_env sample_snapshot r =
     Inr (if r = ''^16.0.0'' \<or> r = ''^18.0.0'' \<or> r = ''^20.0.0'' then ''2.0.0''
          else if r = ''^12.0.0'' \<or> r = ''^14.0.0'' then ''1.0.0'' else ''Not informed'')"
  by (simp add: findLatest_unfold [OF sample_snapshot_ok(1) sample_snapshot_ok(3)]
      sample_snapshot_versions sample_keys sample_intersecting)

lemma sample_compat_results:
  "runNodeCompatibility sample_env sample_deps =
     Inr [(''a'', \<lparr>node16Version = ''2.0.0'', node18Version = ''2.0.0'', node20Version = ''2.0.0''\<rparr>),
          (''b'', \<lparr>node16Version = ''N/A'', node18Version = ''N/A'', node20Version = ''N/A''\<rparr>)]"
  by (simp add: runNodeCompatibility_def sample_deps_def findNodeCompatibility_def sample_fetch
      sample_snapshot_ok sample_latest)

lemma sample_shapes:
  "list_all drift_record sample_drift_list" "list_all (\<lambda>r. \<not> nullish r) sample_package_list"
  by (simp_all add: sample_drift_list_def sample_drift_a_def sample_package_list_def sample_package_a_def drift_record_def getMember_def)

lemma sample_rendered:
  "formatDecimal sample_env (JNum (Fin (3537115888337719 / 1125899906842624))) = Inr ''3,14''"
  "formatDecimal sample_env (JNum (Fin (1 / 2))) = Inr ''0,50''"
proof -
  have n: "nat \<lfloor>\<bar>3537115888337719 / 1125899906842624 :: rat\<bar> * 100 + 1 / 2\<rfloor> = 314"
    by (simp add: floor_numeral_fraction)
  have b: "\<bar>3537115888337719 / 1125899906842624 :: rat\<bar> < 10 ^ 21" by simp
  show "formatDecimal sample_env (JNum (Fin (3537115888337719 / 1125899906842624))) = Inr ''3,14''"
    unfolding formatDecimal_finite [OF b] n by (simp add: digits_small digit_char_def)
  have m: "nat \<lfloor>\<bar>1 / 2 :: rat\<bar> * 100 + 1 / 2\<rfloor> = 50"
    by (simp add: floor_numeral_fraction)
  have c: "\<bar>1 / 2 :: rat\<bar> < 10 ^ 21" by simp
  show "formatDecimal sample_env (JNum (Fin (1 / 2))) = Inr ''0,50''"
    unfolding formatDecimal_finite [OF c] m by (simp add: digits_small digit_char_def)
qed

lemma sample_first_matches:
  "first_match ''dependency'' ''a'' sample_drift_list = sample_drift_a"
  "first_match ''moduleName'' ''a'' sample_package_list = sample_package_a"
  "first_match ''dependency'' ''b'' sample_drift_list = JUndefined"
  "first_match ''moduleName'' ''b'' sample_package_list = JUndefined"
  by (simp_all add: first_match_def sample_drift_list_def sample_package_list_def
      sample_drift_a_def sample_package_a_def getMember_def)

lemma sample_fields:
  "sample_drift_a \<noteq> JUndefined"
  "getMember sample_drift_a ''drift'' = JNum (Fin (3537115888337719 / 1125899906842624))"
  "getMember sample_drift_a ''pulse'' = JNum (Fin (1 / 2))"
  "field_or sample_drift_a ''available'' (JStr ''Unknown'') = JStr ''1.4.0''"
  "field_or sample_drift_a ''releases'' (JStr ''0'') = JNum (Fin 3)"
  "field_or sample_drift_a ''major'' (JStr ''0'') = JStr ''0''"
  "field_or sample_drift_a ''minor'' (JStr ''0'') = JNum (Fin 4)"
  "field_or sample_drift_a ''patch'' (JStr ''0'') = JStr ''0''"
  "field_or sample_package_a ''latest'' (JStr ''Unknown'') = JStr ''2.0.0''"
  "field_or sample_package_a ''packageWanted'' (JStr ''Unknown'') = JStr ''1.4.0''"
  "field_or sample_package_a ''easyUpgrade'' (JBool False) = JBool True"
  "field_or sample_package_a ''unused'' (JBool False) = JBool False"
  "field_or JUndefined k dflt = dflt"
  by (simp_all add: field_or_def sample_drift_a_def sample_package_a_def getMember_def)

theorem join_miss_degrades_to_defaults_witness:
  "joinRow sample_env (JArr sample_drift_list) (JArr sample_package_list)
      [(''a'', \<lparr>node16Version = ''2.0.0'', node18Version = ''2.0.0'', node20Version = ''2.0.0''\<rparr>),
       (''b'', \<lparr>node16Version = ''N/A'', node18Version = ''N/A'', node20Version = ''N/A''\<rparr>)]
      \<lparr>dependency = ''a'', type = ''production'', version = JStr ''^1.0.0'', module = ''myproj''\<rparr>
    = Inr [(''module'', JStr ''myproj''), (''dependency'', JStr ''a''),
           (''type'', JStr ''production''), (''currentVersion'', JStr ''^1.0.0''),
           (''latestVersion'', JStr ''1.4.0''), (''npmLatest'', JStr ''2.0.0''),
           (''npmWanted'', JStr ''1.4.0''), (''easyUpgrade'', JBool True),
           (''node16Version'', JStr ''2.0.0''), (''node18Version'', JStr ''2.0.0''),
           (''node20Version'', JStr ''2.0.0''), (''unused'', JBool False),
           (''drift'', JStr ''3,14''), (''pulse'', JStr ''0,50''),
           (''releases'', JNum (Fin 3)), (''major'', JStr ''0''),
           (''minor'', JNum (Fin 4)), (''patch'', JStr ''0'')]
   \<and> joinRow sample_env (JArr sample_drift_list) (JArr sample_package_list)
      [(''a'', \<lparr>node16Version = ''2.0.0'', node18Version = ''2.0.0'', node20Version = ''2.0.0''\<rparr>),
       (''b'', \<lparr>node16Version = ''N/A'', node18Version = ''N/A'', node20Version = ''N/A''\<rparr>)]
      \<lparr>dependency = ''b'', type = ''development'', version = JStr ''~2.0.0'', module = ''myproj''\<rparr>
    = Inr [(''module'', JStr ''myproj''), (''dependency'', JStr ''b''),
           (''type'', JStr ''development''), (''currentVersion'', JStr ''~2.0.0''),
           (''latestVersion'', JStr ''Unknown''), (''npmLatest'', JStr ''Unknown''),
           (''npmWanted'', JStr ''Unknown''), (''easyUpgrade'', JBool False),
           (''node16Version'', JStr ''N/A''), (''node18Version'', JStr ''N/A''),
           (''node20Version'', JStr ''N/A''), (''unused'', JBool False),
           (''drift'', JStr ''Unknown''), (''pulse'', JStr ''Unknown''),
           (''releases'', JStr ''0''), (''major'', JStr ''0''),
           (''minor'', JStr ''0''), (''patch'', JStr ''0'')]"
proof -
  let ?a = "\<lparr>dependency = ''a'', type = ''production'', version = JStr ''^1.0.0'', module = ''myproj''\<rparr>"
  let ?b = "\<lparr>dependency = ''b'', type = ''development'', version = JStr ''~2.0.0'', module = ''myproj''\<rparr>"
  have a: "?a \<in> set sample_deps" and b: "?b \<in> set sample_deps"
    by (simp_all add: sample_deps_def)
  note th = join_miss_degrades_to_defaults [OF sample_shapes sample_compat_results _ refl refl]
  from th [OF a] obtain row c d p where
    "joinRow sample_env (JArr sample_drift_list) (JArr sample_package_list)
      [(''a'', \<lparr>node16Version = ''2.0.0'', node18Version = ''2.0.0'', node20Version = ''2.0.0''\<rparr>),
       (''b'', \<lparr>node16Version = ''N/A'', node18Version = ''N/A'', node20Version = ''N/A''\<rparr>)] ?a
       = Inr row"
    "c = \<lparr>node16Version = ''2.0.0'', node18Version = ''2.0.0'', node20Version = ''2.0.0''\<rparr>"
    "d = ''3,14''" "p = ''0,50''"
    "row = [(''module'', JStr ''myproj''), (''dependency'', JStr ''a''),
           (''type'', JStr ''production''), (''currentVersion'', JStr ''^1.0.0''),
           (''latestVersion'', JStr ''1.4.0''), (''npmLatest'', JStr ''2.0.0''),
           (''npmWanted'', JStr ''1.4.0''), (''easyUpgrade'', JBool True),
           (''node16Version'', JStr (node16Version c)), (''node18Version'', JStr (node18Version c)),
           (''node20Version'', JStr (node20Version c)), (''unused'', JBool False),
           (''drift'', JStr d), (''pulse'', JStr p),
           (''releases'', JNum (Fin 3)), (''major'', JStr ''0''),
           (''minor'', JNum (Fin 4)), (''patch'', JStr ''0'')]"
    by (auto simp: sample_first_matches sample_fields sample_rendered findCompat_def)
  then have A: "joinRow sample_env (JArr sample_drift_list) (JArr sample_package_list)
      [(''a'', \<lparr>node16Version = ''2.0.0'', node18Version = ''2.0.0'', node20Version = ''2.0.0''\<rparr>),
       (''b'', \<lparr>node16Version = ''N/A'', node18Version = ''N/A'', node20Version = ''N/A''\<rparr>)] ?a
    = Inr [(''module'', JStr ''myproj''), (''dependency'', JStr ''a''),
           (''type'', JStr ''production''), (''currentVersion'', JStr ''^1.0.0''),
           (''latestVersion'', JStr ''1.4.0''), (''npmLatest'', JStr ''2.0.0''),
           (''npmWanted'', JStr ''1.4.0''), (''easyUpgrade'', JBool True),
           (''node16Version'', JStr ''2.0.0''), (''node18Version'', JStr ''2.0.0''),
           (''node20Version'', JStr ''2.0.0''), (''unused'', JBool False),
           (''drift'', JStr ''3,14''), (''pulse'', JStr ''0,50''),
           (''releases'', JNum (Fin 3)), (''major'', JStr ''0''),
           (''minor'', JNum (Fin 4)), (''patch'', JStr ''0'')]"
    by simp
  from th [OF b] obtain row c d p where
    "joinRow sample_env (JArr sample_drift_list) (JArr sample_package_list)
      [(''a'', \<lparr>node16Version = ''2.0.0'', node18Version = ''2.0.0'', node20Version = ''2.0.0''\<rparr>),
       (''b'', \<lparr>node16Version = ''N/A'', node18Version = ''N/A'', node20Version = ''N/A''\<rparr>)] ?b
       = Inr row"
    "c = \<lparr>node16Version = ''N/A'', node18Version = ''N/A'', node20Version = ''N/A''\<rparr>"
    "d = ''Unknown''" "p = ''Unknown''"
    "row = [(''module'', JStr ''myproj''), (''dependency'', JStr ''b''),
           (''type'', JStr ''development''), (''currentVersion'', JStr ''~2.0.0''),
           (''latestVersion'', JStr ''Unknown''), (''npmLatest'', JStr ''Unknown''),
           (''npmWanted'', JStr ''Unknown''), (''easyUpgrade'', JBool False),
           (''node16Version'', JStr (node16Version c)), (''node18Version'', JStr (node18Version c)),
           (''node20Version'', JStr (node20Version c)), (''unused'', JBool False),
           (''drift'', JStr d), (''pulse'', JStr p),
           (''releases'', JStr ''0''), (''major'', JStr ''0''),
           (''minor'', JStr ''0''), (''patch'', JStr ''0'')]"
    by (auto simp: sample_first_matches sample_fields findCompat_def)
  then have B: "joinRow sample_env (JArr sample_drift_list) (JArr sample_package_list)
      [(''a'', \<lparr>node16Version = ''2.0.0'', node18Version = ''2.0.0'', node20Version = ''2.0.0''\<rparr>),
       (''b'', \<lparr>node16Version = ''N/A'', node18Version = ''N/A'', node20Version = ''N/A''\<rparr>)] ?b
    = Inr [(''module'', JStr ''myproj''), (''dependency'', JStr ''b''),
           (''type'', JStr ''development''), (''currentVersion'', JStr ''~2.0.0''),
           (''latestVersion'', JStr ''Unknown''), (''npmLatest'', JStr ''Unknown''),
           (''npmWanted'', JStr ''Unknown''), (''easyUpgrade'', JBool False),
           (''node16Version'', JStr ''N/A''), (''node18Version'', JStr ''N/A''),
           (''node20Version'', JStr ''N/A''), (''unused'', JBool False),
           (''drift'', JStr ''Unknown''), (''pulse'', JStr ''Unknown''),
           (''releases'', JStr ''0''), (''major'', JStr ''0''),
           (''minor'', JStr ''0''), (''patch'', JStr ''0'')]"
    by simp
  from A B show ?thesis by simp
qed

section \<open>Rows per manifest\<close>

lemma joinRow_returns:
  assumes "list_all drift_record ls" and "list_all (\<lambda>r. \<not> nullish r) ps"
    and "findCompat (dependency dep) cs = Inr c"
  shows "\<exists>row. joinRow w (JArr ls) (JArr ps) cs dep = Inr row
           \<and> map_of row ''dependency'' = Some (JStr (dependency dep))"
proof -
  from findBy_total [OF drift_record_records [OF assms(1)], of "''dependency''" "dependency dep"]
  obtain l where l: "findBy ''dependency'' (dependency dep) ls = Inr l"
    and l1: "l = JUndefined \<or> l \<in> set ls" by blast
  from findBy_total [OF assms(2), of "''moduleName''" "dependency dep"]
  obtain n where n: "findBy ''moduleName'' (dependency dep) ps = Inr n" by blast
  from l1 assms(1) have "l = JUndefined \<or> drift_record l" by (auto simp: list_all_iff)
  from formatDecimal_opt [OF this, of w]
  obtain d p where "formatDecimal w (optProp l ''drift'') = Inr d"
    "formatDecimal w (optProp l ''pulse'') = Inr p" by blast
  with l n assms(3) show ?thesis
    by (simp add: joinRow_def arrayFindBy_def formatDependencyResult_def Let_def)
qed

lemma joinLoop_rows:
  assumes "\<forall>d\<in>set deps. \<exists>row. joinRow w l n c d = Inr row
             \<and> map_of row ''dependency'' = Some (JStr (dependency d))"
  shows "\<exists>rows. joinLoop w l n c deps csvData = Inr (csvData @ rows)
           \<and> map (\<lambda>r. map_of r ''dependency'') rows = map (\<lambda>d. Some (JStr (dependency d))) deps"
  using assms
proof (induction deps arbitrary: csvData)
  case Nil
  then show ?case by simp
next
  case (Cons dep deps)
  from Cons.prems obtain row where row: "joinRow w l n c dep = Inr row"
    "map_of row ''dependency'' = Some (JStr (dependency dep))" by auto
  from Cons.prems have "\<forall>d\<in>set deps. \<exists>row. joinRow w l n c d = Inr row
             \<and> map_of row ''dependency'' = Some (JStr (dependency d))" by simp
  from Cons.IH [OF this, of "csvData @ [row]"] obtain rows where
    "joinLoop w l n c deps (csvData @ [row]) = Inr ((csvData @ [row]) @ rows)"
    "map (\<lambda>r. map_of r ''dependency'') rows = map (\<lambda>d. Some (JStr (dependency d))) deps"
    by blast
  with row have "joinLoop w l n c (dep # deps) csvData = Inr (csvData @ (row # rows))
     \<and> map (\<lambda>r. map_of r ''dependency'') (row # rows)
         = map (\<lambda>d. Some (JStr (dependency d))) (dep # deps)"
    by simp
  then show ?case by blast
qed

lemma not_array_cases: "\<not> Array_isArray v \<or> (\<exists>ls. v = JArr ls)"
  by (cases v) simp_all

lemma joinLoop_appends:
  "joinLoop w l n c deps csvData = Inr csvData' \<Longrightarrow>
   \<exists>rows. csvData' = csvData @ rows \<and> length rows = length deps"
proof (induction deps arbitrary: csvData)
  case Nil
  then show ?case by simp
next
  case (Cons dep deps)
  from Cons.prems obtain row where
    "joinLoop w l n c deps (csvData @ [row]) = Inr csvData'"
    by (auto simp: bindE_eq_Inr)
  from Cons.IH [OF this] obtain rows where
    "csvData' = (csvData @ [row]) @ rows" "length rows = length deps" by blast
  then have "csvData' = csvData @ (row # rows) \<and> length (row # rows) = length (dep # deps)"
    by simp
  then show ?case by blast
qed

lemma processFile_appends:
  assumes "analyzeDependencies w file rootDirName = Inr deps"
    and "runLibyearAnalysis w file = Inr lib"
    and "processFile w rootDirName file csvData = Inr csvData'"
  shows "\<exists>rows. csvData' = csvData @ rows
           \<and> length rows = (if Array_isArray lib then length deps else 0)"
proof -
  from assms obtain cs where cs: "runNodeCompatibility w deps = Inr cs"
    and r: "(if \<not> truthy lib \<or> \<not> Array_isArray lib then Inr csvData
             else joinLoop w lib (runNpmCheck w file) cs deps csvData) = Inr csvData'"
    by (auto simp: processFile_def Let_def bindE_eq_Inr)
  show ?thesis
  proof (cases "Array_isArray lib")
    case True
    then have "truthy lib" by (cases lib) simp_all
    with True r have "joinLoop w lib (runNpmCheck w file) cs deps csvData = Inr csvData'"
      by simp
    from joinLoop_appends [OF this] True show ?thesis by simp
  next
    case False
    with r show ?thesis by simp
  qed
qed

lemma processFile_returns:
  assumes "analyzeDependencies w file rootDirName = Inr deps"
    and "runLibyearAnalysis w file = Inr lib"
    and "Array_isArray lib \<longrightarrow> drift_records lib \<and> package_records (runNpmCheck w file)"
    and "\<forall>d\<in>set deps. \<exists>body. fetchNpmPackageInfo w (dependency d) = Inr body
                               \<and> snapshot_or_sentinel body"
  shows "\<exists>rows. processFile w rootDirName file csvData = Inr (csvData @ rows)
           \<and> length rows = (if Array_isArray lib then length deps else 0)
           \<and> (Array_isArray lib \<longrightarrow>
                map (\<lambda>r. map_of r ''dependency'') rows = map (\<lambda>d. Some (JStr (dependency d))) deps)
           \<and> mainLoop w rootDirName (file # files) csvData
                = mainLoop w rootDirName files (csvData @ rows)"
proof -
  from assms(4) have "\<forall>d\<in>set deps. \<exists>c. findNodeCompatibility w (dependency d) = Inr c"
    using findNodeCompatibility_returns(1) by blast
  from compatLoop_returns [OF this] obtain cs where
    cs: "runNodeCompatibility w deps = Inr cs"
    by (auto simp: runNodeCompatibility_def)
  then have loop: "compatLoop (findNodeCompatibility w) deps [] = Inr cs"
    by (simp add: runNodeCompatibility_def)
  show ?thesis
  proof (cases "Array_isArray lib")
    case False
    with assms(1,2) cs have "processFile w rootDirName file csvData = Inr (csvData @ [])"
      by (simp add: processFile_def Let_def)
    with False show ?thesis by (intro exI [of _ "[]"]) simp
  next
    case True
    with assms(3) obtain ls ps where lib: "lib = JArr ls" and ls: "list_all drift_record ls"
      and ps: "runNpmCheck w file = JArr ps" "list_all (\<lambda>r. \<not> nullish r) ps"
      by (auto simp: drift_records_def package_records_def split: jsval.splits)
    have "\<exists>row. joinRow w (JArr ls) (JArr ps) cs d = Inr row
             \<and> map_of row ''dependency'' = Some (JStr (dependency d))" if "d \<in> set deps" for d
    proof -
      from compatLoop_lookup [OF loop] that obtain c where
        "findCompat (dependency d) cs = Inr c" by blast
      from joinRow_returns [OF ls ps(2) this] show ?thesis .
    qed
    then have "\<forall>d\<in>set deps. \<exists>row. joinRow w (JArr ls) (JArr ps) cs d = Inr row
             \<and> map_of row ''dependency'' = Some (JStr (dependency d))" by blast
    from joinLoop_rows [OF this, of csvData] obtain rows where
      rows: "joinLoop w (JArr ls) (JArr ps) cs deps csvData = Inr (csvData @ rows)"
      and names: "map (\<lambda>r. map_of r ''dependency'') rows = map (\<lambda>d. Some (JStr (dependency d))) deps"
      by blast
    from names have len: "length rows = length deps" by (metis length_map)
    from assms(1,2) cs lib ps(1) rows
    have "processFile w rootDirName file csvData = Inr (csvData @ rows)"
      by (simp add: processFile_def Let_def)
    with True len names show ?thesis by (intro exI [of _ rows]) simp
  qed
qed


text \<open>
  What the loop does with a manifest whose drift analysis resolves. Whenever the iteration
  completes, it has appended to the accumulated rows one row per declaration if the
  analysis resolved with a list, and no row if it resolved with anything else, and the
  loop goes on with the next manifest. The iteration does complete when the collaborators
  answer in their documented shapes, and the rows then bear the declarations' names in
  order. The rows reach the report only if the whole run completes.
\<close>

lemma resolved_analysis_appends_rows:
  assumes "analyzeDependencies w file rootDirName = Inr deps"
    and "runLibyearAnalysis w file = Inr lib"
  shows "(\<forall>csvData'. processFile w rootDirName file csvData = Inr csvData' \<longrightarrow>
            (\<exists>rows. csvData' = csvData @ rows
               \<and> length rows = (if Array_isArray lib then length deps else 0)
               \<and> mainLoop w rootDirName (file # files) csvData
                    = mainLoop w rootDirName files (csvData @ rows)))
       \<and> ((Array_isArray lib \<longrightarrow> drift_records lib \<and> package_records (runNpmCheck w file))
          \<and> (\<forall>d\<in>set deps. \<exists>body. fetchNpmPackageInfo w (dependency d) = Inr body
                                  \<and> snapshot_or_sentinel body) \<longrightarrow>
           (\<exists>rows. processFile w rootDirName file csvData = Inr (csvData @ rows)
              \<and> (Array_isArray lib \<longrightarrow>
                   map (\<lambda>r. map_of r ''dependency'') rows
                     = map (\<lambda>d. Some (JStr (dependency d))) deps)))"
proof (intro conjI allI impI)
  fix csvData' assume ret: "processFile w rootDirName file csvData = Inr csvData'"
  from processFile_appends [OF assms ret] obtain rows where
    "csvData' = csvData @ rows" "length rows = (if Array_isArray lib then length deps else 0)"
    by blast
  with ret show "\<exists>rows. csvData' = csvData @ rows
               \<and> length rows = (if Array_isArray lib then length deps else 0)
               \<and> mainLoop w rootDirName (file # files) csvData
                    = mainLoop w rootDirName files (csvData @ rows)"
    by (intro exI [of _ rows]) simp
next
  assume "(Array_isArray lib \<longrightarrow> drift_records lib \<and> package_records (runNpmCheck w file))
          \<and> (\<forall>d\<in>set deps. \<exists>body. fetchNpmPackageInfo w (dependency d) = Inr body
                                  \<and> snapshot_or_sentinel body)"
  then have a: "Array_isArray lib \<longrightarrow> drift_records lib \<and> package_records (runNpmCheck w file)"
    and b: "\<forall>d\<in>set deps. \<exists>body. fetchNpmPackageInfo w (dependency d) = Inr body
                                  \<and> snapshot_or_sentinel body"
    by blast+
  from processFile_returns [OF assms a b, of csvData]
  show "\<exists>rows. processFile w rootDirName file csvData = Inr (csvData @ rows)
              \<and> (Array_isArray lib \<longrightarrow>
                   map (\<lambda>r. map_of r ''dependency'') rows
                     = map (\<lambda>d. Some (JStr (dependency d))) deps)"
    by blast
qed

lemma sample_libyear:
  "runLibyearAnalysis sample_env ''myproj/package.json'' = Inr sample_drift"
  "runLibyearAnalysis sample_env ''myproj/pkgs/foo/package.json'' = Inr (JStr ''warning'')"
  by (simp_all add: runLibyearAnalysis_def sample_env_fields sample_paths sample_parse_def)

lemma sample_npmCheck:
  "runNpmCheck sample_env ''myproj/package.json'' = sample_packages"
  by (simp add: runNpmCheck_def sample_env_fields sample_paths)

lemma sample_root_shapes:
  "Array_isArray sample_drift \<longrightarrow>
     drift_records sample_drift \<and> package_records (runNpmCheck sample_env ''myproj/package.json'')"
  by (simp add: sample_npmCheck sample_drift_def sample_packages_def drift_records_def
      package_records_def sample_shapes)

lemma sample_foo_registry_ok:
  "\<forall>d\<in>set [\<lparr>dependency = ''c'', type = ''production'', version = JStr ''1.2.3'',
                 module = ''myproj/foo''\<rparr>].
      \<exists>body. fetchNpmPackageInfo sample_env (dependency d) = Inr body \<and> snapshot_or_sentinel body"
  by (simp add: fetchNpmPackageInfo_def sample_env_def snapshot_or_sentinel_def getMember_def)

lemma resolved_analysis_appends_rows_sample:
  "(\<exists>rows. processFile sample_env ''myproj'' ''myproj/package.json'' [] = Inr rows
        \<and> length rows = 2)
   \<and> processFile sample_env ''myproj'' ''myproj/pkgs/foo/package.json'' [] = Inr []
   \<and> (\<exists>rows. mainLoop sample_env ''myproj''
                [''myproj/package.json'', ''myproj/pkgs/foo/package.json''] [] = Inr rows
        \<and> length rows = 2)"
proof -
  note root = resolved_analysis_appends_rows [OF sample_analyze_root sample_libyear(1),
      of "[]" "[''myproj/pkgs/foo/package.json'']"]
  from root sample_root_shapes sample_registry_ok
  obtain rows where r1: "processFile sample_env ''myproj'' ''myproj/package.json'' [] = Inr rows"
    by auto
  with root have l1: "length rows = 2"
    and m1: "mainLoop sample_env ''myproj''
               [''myproj/package.json'', ''myproj/pkgs/foo/package.json''] []
             = mainLoop sample_env ''myproj'' [''myproj/pkgs/foo/package.json''] rows"
    by (auto simp: sample_drift_def sample_deps_def)
  have na: "Array_isArray (JStr ''warning'') \<longrightarrow> drift_records (JStr ''warning'')
      \<and> package_records (runNpmCheck sample_env ''myproj/pkgs/foo/package.json'')"
    by simp
  note foo = resolved_analysis_appends_rows [OF sample_analyze_foo sample_libyear(2)]
  from foo [of "[]" "[]"] na sample_foo_registry_ok
  have r2: "processFile sample_env ''myproj'' ''myproj/pkgs/foo/package.json'' [] = Inr []"
    by auto
  from foo [of rows "[]"] na sample_foo_registry_ok
  have "mainLoop sample_env ''myproj'' [''myproj/pkgs/foo/package.json''] rows = Inr rows"
    by auto
  with m1 have "mainLoop sample_env ''myproj''
               [''myproj/package.json'', ''myproj/pkgs/foo/package.json''] [] = Inr rows"
    by simp
  with r1 l1 r2 show ?thesis by blast
qed

lemma failing_last_env_fields:
  "path_dirname failing_last_env = sample_dirname"
  "path_basename failing_last_env = sample_basename"
  "JSON_parse failing_last_env = sample_parse"
  "fs_readFileSync failing_last_env = fs_readFileSync sample_env"
  "npmCheck_packages failing_last_env = npmCheck_packages sample_env"
  "axios_get failing_last_env = axios_get sample_env"
  "exec_libyear failing_last_env ''myproj'' = exec_libyear sample_env ''myproj''"
  "exec_libyear failing_last_env ''myproj/pkgs/foo'' =
     \<lparr>exec_error = Some ''Command failed: libyear --json'', exec_stdout = [], exec_stderr = []\<rparr>"
  by (simp_all add: failing_last_env_def sample_env_def)

lemma failing_last_analyze:
  "analyzeDependencies failing_last_env p r = analyzeDependencies sample_env p r"
  by (rule analyze_env_cong) (simp_all add: failing_last_env_fields sample_env_fields)

lemma failing_last_root:
  "runLibyearAnalysis failing_last_env ''myproj/package.json'' = Inr sample_drift"
  "runNpmCheck failing_last_env ''myproj/package.json'' = sample_packages"
  "fetchNpmPackageInfo failing_last_env = fetchNpmPackageInfo sample_env"
  by (simp_all add: runLibyearAnalysis_def runNpmCheck_def fetchNpmPackageInfo_def fun_eq_iff
      failing_last_env_fields sample_env_fields sample_paths sample_parse_def)

text \<open>
  Claim C5, evaluated where the code departs from it. In the sample project with the
  \<^verbatim>\<open>libyear\<close> process failing in \<^verbatim>\<open>pkgs/foo\<close>, the drift analysis of that manifest
  does not yield a list: it rejects. The root manifest, whose analysis yields a list, has
  two declarations and on its own gives two rows; followed by the failing manifest it
  gives none, since the rejection ends the run and nothing is handed to the writer. With
  the process failing in the root directory instead, the manifest of \<^verbatim>\<open>pkgs/foo\<close>, which
  on its own gives a row, is never processed: the loop does not go on to the next manifest.
\<close>

theorem failed_analysis_discards_rows:
  "runLibyearAnalysis failing_last_env ''myproj/pkgs/foo/package.json''
     = Inl (ExternalError ''Command failed: libyear --json'')
   \<and> (\<exists>rows. run failing_last_env ''myproj'' [''myproj/package.json''] = Inr rows
         \<and> length rows = 2)
   \<and> run failing_last_env ''myproj'' [''myproj/package.json'', ''myproj/pkgs/foo/package.json'']
     = Inl (ExternalError ''Command failed: libyear --json'')
   \<and> runLibyearAnalysis failing_env ''myproj/package.json''
     = Inl (ExternalError ''Command failed: libyear --json'')
   \<and> (\<exists>r. run failing_env ''myproj'' [''myproj/pkgs/foo/package.json''] = Inr [r])
   \<and> run failing_env ''myproj'' [''myproj/package.json'', ''myproj/pkgs/foo/package.json'']
     = Inl (ExternalError ''Command failed: libyear --json'')"
proof -
  have shapes: "Array_isArray sample_drift \<longrightarrow> drift_records sample_drift
      \<and> package_records (runNpmCheck failing_last_env ''myproj/package.json'')"
    using sample_root_shapes by (simp add: failing_last_root sample_npmCheck)
  have reg: "\<forall>d\<in>set sample_deps. \<exists>body.
      fetchNpmPackageInfo failing_last_env (dependency d) = Inr body \<and> snapshot_or_sentinel body"
    using sample_registry_ok by (simp add: failing_last_root)
  have an: "analyzeDependencies failing_last_env ''myproj/package.json'' ''myproj'' = Inr sample_deps"
    by (simp add: failing_last_analyze sample_analyze_root)
  from processFile_returns [OF an failing_last_root(1) shapes reg, of "[]" "[]"]
  obtain rows where
    "processFile failing_last_env ''myproj'' ''myproj/package.json'' [] = Inr ([] @ rows)"
    "length rows = (if Array_isArray sample_drift then length sample_deps else 0)"
    by blast
  then have rows: "processFile failing_last_env ''myproj'' ''myproj/package.json'' [] = Inr rows"
    and len: "length rows = 2"
    by (simp_all add: sample_drift_def sample_deps_def)
  have fl: "runLibyearAnalysis failing_last_env ''myproj/pkgs/foo/package.json''
     = Inl (ExternalError ''Command failed: libyear --json'')"
    by (simp add: runLibyearAnalysis_def failing_last_env_fields sample_paths)
  have stop: "mainLoop failing_last_env ''myproj'' [''myproj/pkgs/foo/package.json''] csvData
      = Inl (ExternalError ''Command failed: libyear --json'')" for csvData
    by (rule libyear_reject_aborts)
      (simp_all add: failing_last_analyze sample_analyze_foo failing_last_env_fields sample_paths)
  have one: "run failing_last_env ''myproj'' [''myproj/package.json''] = Inr rows"
    using rows by (simp add: run_def failing_last_env_fields sample_basename_def)
  have two: "run failing_last_env ''myproj''
      [''myproj/package.json'', ''myproj/pkgs/foo/package.json'']
     = Inl (ExternalError ''Command failed: libyear --json'')"
    using rows stop by (simp add: run_def failing_last_env_fields sample_basename_def)
  have a: "runLibyearAnalysis failing_env ''myproj/package.json''
     = Inl (ExternalError ''Command failed: libyear --json'')"
    by (simp add: runLibyearAnalysis_def failing_env_fields sample_paths)
  have "mainLoop failing_env ''myproj'' (''myproj/package.json'' # files) csvData
      = Inl (ExternalError ''Command failed: libyear --json'')" for csvData files
    by (rule libyear_reject_aborts)
      (simp_all add: failing_analyze sample_analyze_root failing_env_fields sample_paths)
  then have b: "(\<exists>r. run failing_env ''myproj'' [''myproj/pkgs/foo/package.json''] = Inr [r])
   \<and> run failing_env ''myproj'' [''myproj/package.json'', ''myproj/pkgs/foo/package.json'']
     = Inl (ExternalError ''Command failed: libyear --json'')"
    by (simp add: run_def failing_env_fields sample_basename_def failing_foo_rows)
  from fl one len two a b show ?thesis by blast
qed

end
